theory Spec2Isabelle
  imports Main "HOL-Library.Word"
begin

unbundle bit_operations_syntax

section \<open>Values, exceptions and the outside world\<close>

text \<open>
  The module \<^verbatim>\<open>pre_commit/util.py\<close> is a thin layer over the operating system, the
  Python standard library and the resolver \<^verbatim>\<open>parse_shebang\<close>. The functions of the module
  are embedded as state transformers: a function takes the world and returns either an
  exception (\<open>Inl\<close>) or a value (\<open>Inr\<close>) together with the new world.

  The world is the history of the external calls made so far. What an external call answers
  is not fixed here: each one is an oracle of an environment record, a function of the
  history and of the arguments, so that every theorem holds for any behaviour of the
  operating system, of the library and of the resolver.
\<close>

type_synonym byte = "8 word"
type_synonym bytes = "byte list"
type_synonym unicode = "nat list"  \<comment> \<open>a decoded \<^verbatim>\<open>str\<close>, as code points\<close>
type_synonym path = string
type_synonym cmd = "string list"  \<comment> \<open>\<^verbatim>\<open>Tuple[str, ...]\<close>\<close>
type_synonym proc = nat  \<comment> \<open>a \<^verbatim>\<open>Popen\<close> object\<close>
type_synonym fileobj = nat  \<comment> \<open>a file object\<close>

text \<open>The values a keyword argument of \<^verbatim>\<open>Popen\<close> takes in this module.\<close>

datatype pyval = PyNone | PyInt int | PyStr string | PyFile fileobj

type_synonym kwargs = "string \<rightharpoonup> pyval"

definition PIPE :: pyval where  \<comment> \<open>\<^verbatim>\<open>subprocess.PIPE\<close>\<close>
  "PIPE = PyInt (- 1)"

definition STDOUT :: pyval where  \<comment> \<open>\<^verbatim>\<open>subprocess.STDOUT\<close>\<close>
  "STDOUT = PyInt (- 2)"

text \<open>The result of a run: \<^verbatim>\<open>(returncode, stdout, stderr)\<close>. A stream that was not
  captured is \<^verbatim>\<open>None\<close>.\<close>

type_synonym result_b = "int \<times> bytes option \<times> bytes option"
type_synonym result_t = "int \<times> unicode option \<times> unicode option"

text \<open>\<^verbatim>\<open>class CalledProcessError(RuntimeError)\<close>: the fields \<^verbatim>\<open>__init__\<close> stores.\<close>

record called_process_error =
  returncode :: int
  cmd :: cmd
  expected_returncode :: int
  stdout :: "bytes option"
  stderr :: "bytes option"

definition CalledProcessError_init ::
  "int \<Rightarrow> cmd \<Rightarrow> int \<Rightarrow> bytes option \<Rightarrow> bytes option \<Rightarrow> called_process_error" where
  "CalledProcessError_init returncode' cmd' expected_returncode' stdout' stderr' =
     \<lparr>returncode = returncode', cmd = cmd', expected_returncode = expected_returncode',
      stdout = stdout', stderr = stderr'\<rparr>"

text \<open>
  Modelled from the spec: the class \<^verbatim>\<open>parse_shebang.ExecutableNotFoundError\<close> and its method
  \<^verbatim>\<open>to_output()\<close>, which are not part of this module. The resolver's failure carries enough
  state to produce \<^verbatim>\<open>(returncode, stdout, stderr)\<close> without spawning, so the exception is
  represented by the triple \<^verbatim>\<open>to_output()\<close> returns.

  The other exceptions are Python's and this module's own. An \<open>OSError\<close> is represented by
  its \<^verbatim>\<open>errno\<close>, an \<open>AssertionError\<close> by the message of the \<^verbatim>\<open>assert\<close>, if any;
  \<open>OtherError\<close> stands for any other exception.
\<close>

datatype exn =
    ExecutableNotFoundError result_b
  | CalledProcessError called_process_error
  | AssertionError "pyval option"
  | KeyError string
  | OSError int
  | UnicodeDecodeError
  | OtherError string

fun to_output :: "exn \<Rightarrow> result_b option" where
  "to_output (ExecutableNotFoundError out) = Some out"
| "to_output _ = None"

definition EIO :: int where  \<comment> \<open>\<^verbatim>\<open>errno.EIO\<close>\<close>
  "EIO = 5"

definition EACCES :: int where  \<comment> \<open>\<^verbatim>\<open>errno.EACCES\<close>\<close>
  "EACCES = 13"

definition S_IXUSR :: int where "S_IXUSR = 64"   \<comment> \<open>\<^verbatim>\<open>0o100\<close>\<close>
definition S_IXGRP :: int where "S_IXGRP = 8"    \<comment> \<open>\<^verbatim>\<open>0o010\<close>\<close>
definition S_IXOTH :: int where "S_IXOTH = 1"    \<comment> \<open>\<^verbatim>\<open>0o001\<close>\<close>
definition S_IWUSR :: int where "S_IWUSR = 128"  \<comment> \<open>\<^verbatim>\<open>0o200\<close>\<close>

text \<open>The functions \<^verbatim>\<open>shutil.rmtree\<close> hands to its error handler.\<close>

datatype os_func = Rmdir | Remove | Unlink | Lstat | Scandir | Open | Islink

text \<open>\<^verbatim>\<open>termios.tcgetattr\<close> returns the list
  \<^verbatim>\<open>[iflag, oflag, cflag, lflag, ispeed, ospeed, cc]\<close>.\<close>

record termios_attrs =
  iflag :: int
  oflag :: int
  cflag :: int
  lflag :: int
  ispeed :: int
  ospeed :: int
  cc :: "int list"

text \<open>One external call, as it is recorded in the history.\<close>

datatype event =
    NormalizeCmd cmd
  | Popen cmd kwargs
  | Communicate proc
  | Wait proc
  | OpenDevnull
  | FileClose fileobj
  | OpenPty
  | TcGetAttr int
  | TcSetAttr int termios_attrs
  | OsClose int
  | OsRead int nat
  | PathExists path
  | OsStat path
  | OsChmod path int
  | OsFunc os_func path

type_synonym world = "event list"

text \<open>An external call asks the oracle in the current world and records the call.\<close>

definition extern :: "(world \<Rightarrow> 'a) \<Rightarrow> event \<Rightarrow> world \<Rightarrow> 'a \<times> world" where
  "extern oracle ev w = (oracle w, w @ [ev])"

text \<open>What the runners call: the resolver, \<^verbatim>\<open>subprocess\<close> and \<^verbatim>\<open>bytes.decode\<close>.\<close>

record proc_env =
  normalize_cmd :: "world \<Rightarrow> cmd \<Rightarrow> exn + cmd"
  subprocess_Popen :: "world \<Rightarrow> cmd \<Rightarrow> kwargs \<Rightarrow> exn + proc"
  proc_communicate :: "world \<Rightarrow> proc \<Rightarrow> exn + bytes option \<times> bytes option"
  proc_returncode :: "world \<Rightarrow> proc \<Rightarrow> int"
  proc_wait :: "world \<Rightarrow> proc \<Rightarrow> exn + int"
  bytes_decode :: "bytes \<Rightarrow> exn + unicode"

text \<open>What the pseudo-terminal session calls.\<close>

record pty_env =
  open_devnull :: "world \<Rightarrow> exn + fileobj"
  file_close :: "world \<Rightarrow> fileobj \<Rightarrow> exn + unit"
  openpty :: "world \<Rightarrow> exn + int \<times> int"
  tcgetattr :: "world \<Rightarrow> int \<Rightarrow> exn + termios_attrs"
  tcsetattr :: "world \<Rightarrow> int \<Rightarrow> termios_attrs \<Rightarrow> exn + unit"
  ONLCR :: int
  OPOST :: int
  os_close :: "world \<Rightarrow> int \<Rightarrow> exn + unit"
  os_read :: "world \<Rightarrow> int \<Rightarrow> nat \<Rightarrow> exn + bytes"

text \<open>What the filesystem utilities call. \<^verbatim>\<open>shutil.rmtree\<close> is a function of its three
  arguments \<^verbatim>\<open>(path, ignore_errors, onerror)\<close>; the handler it is given takes the failing
  function, the failing path and the \<^verbatim>\<open>errno\<close> of the \<open>OSError\<close> being handled.\<close>

type_synonym onerror = "os_func \<Rightarrow> path \<Rightarrow> int \<Rightarrow> world \<Rightarrow> (exn + unit) \<times> world"

record fs_env =
  os_path_exists :: "world \<Rightarrow> path \<Rightarrow> bool"
  os_path_dirname :: "path \<Rightarrow> path"
  os_stat_st_mode :: "world \<Rightarrow> path \<Rightarrow> exn + int"
  os_chmod :: "world \<Rightarrow> path \<Rightarrow> int \<Rightarrow> exn + unit"
  os_func :: "world \<Rightarrow> os_func \<Rightarrow> path \<Rightarrow> exn + unit"
  shutil_rmtree :: "path \<Rightarrow> bool \<Rightarrow> onerror \<Rightarrow> world \<Rightarrow> (exn + unit) \<times> world"

section \<open>Filesystem utilities\<close>

subsection \<open>\<^verbatim>\<open>make_executable\<close>\<close>

definition make_executable :: "fs_env \<Rightarrow> path \<Rightarrow> world \<Rightarrow> (exn + unit) \<times> world" where
  "make_executable env filename w =
     (case extern (\<lambda>w. os_stat_st_mode env w filename) (OsStat filename) w of
        (Inl e, w1) \<Rightarrow> (Inl e, w1)
      | (Inr original_mode, w1) \<Rightarrow>
          (let new_mode = original_mode OR S_IXUSR OR S_IXGRP OR S_IXOTH
           in extern (\<lambda>w. os_chmod env w filename new_mode) (OsChmod filename new_mode) w1))"

subsection \<open>\<^verbatim>\<open>rmtree\<close>\<close>

text \<open>The loop \<^verbatim>\<open>for p in (path, os.path.dirname(path)): os.chmod(p, os.stat(p).st_mode | stat.S_IWUSR)\<close>
  of the error handler.\<close>

fun chmod_writable :: "fs_env \<Rightarrow> path list \<Rightarrow> world \<Rightarrow> (exn + unit) \<times> world" where
  "chmod_writable env [] w = (Inr (), w)"
| "chmod_writable env (p # ps) w =
     (case extern (\<lambda>w. os_stat_st_mode env w p) (OsStat p) w of
        (Inl e, w1) \<Rightarrow> (Inl e, w1)
      | (Inr st_mode, w1) \<Rightarrow>
          (case extern (\<lambda>w. os_chmod env w p (st_mode OR S_IWUSR)) (OsChmod p (st_mode OR S_IWUSR)) w1 of
             (Inl e, w2) \<Rightarrow> (Inl e, w2)
           | (Inr _, w2) \<Rightarrow> chmod_writable env ps w2))"

text \<open>The handler \<^verbatim>\<open>handle_remove_readonly(func, path, exc)\<close>; \<open>errno\<close> is
  \<^verbatim>\<open>exc[1].errno\<close>, and the bare \<^verbatim>\<open>raise\<close> raises the \<open>OSError\<close> being handled again.\<close>

definition handle_remove_readonly :: "fs_env \<Rightarrow> onerror" where
  "handle_remove_readonly env func path' errno w =
     (if func \<in> {Rmdir, Remove, Unlink} \<and> errno = EACCES then
        (case chmod_writable env [path', os_path_dirname env path'] w of
           (Inl e, w1) \<Rightarrow> (Inl e, w1)
         | (Inr _, w1) \<Rightarrow> extern (\<lambda>w. os_func env w func path') (OsFunc func path') w1)
      else (Inl (OSError errno), w))"

definition rmtree :: "fs_env \<Rightarrow> path \<Rightarrow> world \<Rightarrow> (exn + unit) \<times> world" where
  "rmtree env path' w = shutil_rmtree env path' False (handle_remove_readonly env) w"

subsection \<open>\<^verbatim>\<open>clean_path_on_failure\<close>\<close>

text \<open>The context manager, applied to the scope it wraps. The scope is any state
  transformer; \<^verbatim>\<open>except BaseException\<close> catches whatever it raises.\<close>

definition clean_path_on_failure ::
  "fs_env \<Rightarrow> path \<Rightarrow> (world \<Rightarrow> (exn + 'a) \<times> world) \<Rightarrow> world \<Rightarrow> (exn + 'a) \<times> world" where
  "clean_path_on_failure env path' scope w =
     (case scope w of
        (Inr v, w1) \<Rightarrow> (Inr v, w1)
      | (Inl e, w1) \<Rightarrow>
          (case extern (\<lambda>w. os_path_exists env w path') (PathExists path') w1 of
             (True, w2) \<Rightarrow>
               (case rmtree env path' w2 of
                  (Inl e', w3) \<Rightarrow> (Inl e', w3)
                | (Inr _, w3) \<Rightarrow> (Inl e, w3))
           | (False, w2) \<Rightarrow> (Inl e, w2)))"

section \<open>The process runner, piped mode\<close>

definition setdefault :: "kwargs \<Rightarrow> string \<Rightarrow> pyval \<Rightarrow> kwargs" where
  "setdefault kw k v = (case kw k of None \<Rightarrow> kw(k \<mapsto> v) | Some _ \<Rightarrow> kw)"

definition setdefault_kwargs :: "kwargs \<Rightarrow> kwargs" where
  "setdefault_kwargs kw = fold (\<lambda>arg kw. setdefault kw arg PIPE) [''stdin'', ''stdout'', ''stderr''] kw"

text \<open>The default of the keyword argument \<^verbatim>\<open>retcode\<close>.\<close>

definition default_retcode :: "int option" where
  "default_retcode = Some 0"

text \<open>The \<^verbatim>\<open>try\<close> statement of \<^verbatim>\<open>cmd_output_b\<close>: it leaves \<^verbatim>\<open>cmd\<close> (rebound to the
  normalized command when the resolver returns one), \<^verbatim>\<open>returncode\<close>, \<^verbatim>\<open>stdout_b\<close> and
  \<^verbatim>\<open>stderr_b\<close>.\<close>

definition run_b :: "proc_env \<Rightarrow> cmd \<Rightarrow> kwargs \<Rightarrow> world \<Rightarrow> (exn + cmd \<times> result_b) \<times> world" where
  "run_b env argv kw w =
     (case extern (\<lambda>w. normalize_cmd env w argv) (NormalizeCmd argv) w of
        (Inl e, w1) \<Rightarrow>
          (case to_output e of
             Some out \<Rightarrow> (Inr (argv, out), w1)
           | None \<Rightarrow> (Inl e, w1))
      | (Inr argv', w1) \<Rightarrow>
          (case extern (\<lambda>w. subprocess_Popen env w argv' kw) (Popen argv' kw) w1 of
             (Inl e, w2) \<Rightarrow> (Inl e, w2)
           | (Inr proc, w2) \<Rightarrow>
               (case extern (\<lambda>w. proc_communicate env w proc) (Communicate proc) w2 of
                  (Inl e, w3) \<Rightarrow> (Inl e, w3)
                | (Inr (stdout_b, stderr_b), w3) \<Rightarrow>
                    (Inr (argv', proc_returncode env w3 proc, stdout_b, stderr_b), w3))))"

definition cmd_output_b ::
  "proc_env \<Rightarrow> cmd \<Rightarrow> int option \<Rightarrow> kwargs \<Rightarrow> world \<Rightarrow> (exn + result_b) \<times> world" where
  "cmd_output_b env argv retcode kw w =
     (case run_b env argv (setdefault_kwargs kw) w of
        (Inl e, w1) \<Rightarrow> (Inl e, w1)
      | (Inr (cmd', returncode', stdout_b, stderr_b), w1) \<Rightarrow>
          (case retcode of
             None \<Rightarrow> (Inr (returncode', stdout_b, stderr_b), w1)
           | Some expected \<Rightarrow>
               (if expected \<noteq> returncode' then
                  (Inl (CalledProcessError
                     (CalledProcessError_init returncode' cmd' expected stdout_b stderr_b)), w1)
                else (Inr (returncode', stdout_b, stderr_b), w1))))"

text \<open>\<^verbatim>\<open>x.decode() if x is not None else None\<close>\<close>

definition decode_if_present :: "proc_env \<Rightarrow> bytes option \<Rightarrow> exn + unicode option" where
  "decode_if_present env x =
     (case x of
        None \<Rightarrow> Inr None
      | Some b \<Rightarrow> (case bytes_decode env b of Inl e \<Rightarrow> Inl e | Inr t \<Rightarrow> Inr (Some t)))"

definition cmd_output ::
  "proc_env \<Rightarrow> cmd \<Rightarrow> int option \<Rightarrow> kwargs \<Rightarrow> world \<Rightarrow> (exn + result_t) \<times> world" where
  "cmd_output env argv retcode kw w =
     (case cmd_output_b env argv retcode kw w of
        (Inl e, w1) \<Rightarrow> (Inl e, w1)
      | (Inr (returncode', stdout_b, stderr_b), w1) \<Rightarrow>
          (case decode_if_present env stdout_b of
             Inl e \<Rightarrow> (Inl e, w1)
           | Inr stdout' \<Rightarrow>
               (case decode_if_present env stderr_b of
                  Inl e \<Rightarrow> (Inl e, w1)
                | Inr stderr' \<Rightarrow> (Inr (returncode', stdout', stderr'), w1))))"

section \<open>The pseudo-terminal session\<close>

text \<open>\<^verbatim>\<open>class Pty\<close>: the two descriptors, \<^verbatim>\<open>None\<close> when not open. A method returns the
  object as it leaves it, also when it raises. The \<^verbatim>\<open>assert\<close> statements are live (Python
  is not run with \<^verbatim>\<open>-O\<close>); the one of \<^verbatim>\<open>__enter__\<close>, that \<^verbatim>\<open>attrs[1]\<close> is an \<^verbatim>\<open>int\<close>, holds
  by the type of \<open>oflag\<close>.\<close>

record pty =
  pty_r :: "int option"
  pty_w :: "int option"

definition Pty_init :: pty where
  "Pty_init = \<lparr>pty_r = None, pty_w = None\<rparr>"

definition Pty_enter :: "pty_env \<Rightarrow> pty \<Rightarrow> world \<Rightarrow> (exn + unit) \<times> pty \<times> world" where
  "Pty_enter env self w =
     (case extern (openpty env) OpenPty w of
        (Inl e, w1) \<Rightarrow> (Inl e, self, w1)
      | (Inr (r, wfd), w1) \<Rightarrow>
          (let self1 = self\<lparr>pty_r := Some r, pty_w := Some wfd\<rparr> in
           case extern (\<lambda>w. tcgetattr env w r) (TcGetAttr r) w1 of
             (Inl e, w2) \<Rightarrow> (Inl e, self1, w2)
           | (Inr attrs, w2) \<Rightarrow>
               (let attrs1 = attrs\<lparr>oflag := oflag attrs AND NOT (ONLCR env OR OPOST env)\<rparr> in
                case extern (\<lambda>w. tcsetattr env w r attrs1) (TcSetAttr r attrs1) w2 of
                  (Inl e, w3) \<Rightarrow> (Inl e, self1, w3)
                | (Inr _, w3) \<Rightarrow> (Inr (), self1, w3))))"

definition close_w :: "pty_env \<Rightarrow> pty \<Rightarrow> world \<Rightarrow> (exn + unit) \<times> pty \<times> world" where
  "close_w env self w =
     (case pty_w self of
        Some fd \<Rightarrow>
          (case extern (\<lambda>w. os_close env w fd) (OsClose fd) w of
             (Inl e, w1) \<Rightarrow> (Inl e, self, w1)
           | (Inr _, w1) \<Rightarrow> (Inr (), self\<lparr>pty_w := None\<rparr>, w1))
      | None \<Rightarrow> (Inr (), self, w))"

definition close_r :: "pty_env \<Rightarrow> pty \<Rightarrow> world \<Rightarrow> (exn + unit) \<times> pty \<times> world" where
  "close_r env self w =
     (case pty_r self of
        None \<Rightarrow> (Inl (AssertionError None), self, w)
      | Some fd \<Rightarrow>
          (case extern (\<lambda>w. os_close env w fd) (OsClose fd) w of
             (Inl e, w1) \<Rightarrow> (Inl e, self, w1)
           | (Inr _, w1) \<Rightarrow> (Inr (), self\<lparr>pty_r := None\<rparr>, w1)))"

definition Pty_exit :: "pty_env \<Rightarrow> pty \<Rightarrow> world \<Rightarrow> (exn + unit) \<times> pty \<times> world" where
  "Pty_exit env self w =
     (case close_w env self w of
        (Inl e, self1, w1) \<Rightarrow> (Inl e, self1, w1)
      | (Inr _, self1, w1) \<Rightarrow> close_r env self1 w1)"

section \<open>The process runner, pty mode\<close>

text \<open>The \<^verbatim>\<open>while True\<close> loop of \<^verbatim>\<open>cmd_output_p\<close>. It need not end: a result \<open>None\<close> is
  a loop that reads without end.\<close>

partial_function (option) read_loop ::
  "pty_env \<Rightarrow> int \<Rightarrow> bytes \<Rightarrow> world \<Rightarrow> ((exn + bytes) \<times> world) option" where
  "read_loop env fd buf w =
     (case extern (\<lambda>w. os_read env w fd 4096) (OsRead fd 4096) w of
        (Inl e, w1) \<Rightarrow>
          (case e of
             OSError errno \<Rightarrow> if errno = EIO then Some (Inr buf, w1) else Some (Inl e, w1)
           | _ \<Rightarrow> Some (Inl e, w1))
      | (Inr bts, w1) \<Rightarrow>
          (if bts = [] then Some (Inr (buf @ bts), w1) else read_loop env fd (buf @ bts) w1))"

text \<open>The body of the \<^verbatim>\<open>with\<close> statement; it leaves \<^verbatim>\<open>proc\<close> and \<^verbatim>\<open>buf\<close>.\<close>

definition pty_body ::
  "proc_env \<Rightarrow> pty_env \<Rightarrow> cmd \<Rightarrow> kwargs \<Rightarrow> fileobj \<Rightarrow> pty \<Rightarrow> world \<Rightarrow>
     ((exn + proc \<times> bytes) \<times> pty \<times> world) option" where
  "pty_body env tenv argv kw devnull self w =
     (case pty_r self of
        None \<Rightarrow> Some (Inl (AssertionError None), self, w)
      | Some r \<Rightarrow>
          (let wv = (case pty_w self of None \<Rightarrow> PyNone | Some fd \<Rightarrow> PyInt fd);
               kw1 = kw(''stdin'' \<mapsto> PyFile devnull, ''stdout'' \<mapsto> wv, ''stderr'' \<mapsto> wv)
           in case extern (\<lambda>w. subprocess_Popen env w argv kw1) (Popen argv kw1) w of
                (Inl e, w1) \<Rightarrow> Some (Inl e, self, w1)
              | (Inr proc, w1) \<Rightarrow>
                  (case close_w tenv self w1 of
                     (Inl e, self1, w2) \<Rightarrow> Some (Inl e, self1, w2)
                   | (Inr _, self1, w2) \<Rightarrow>
                       (case read_loop tenv r [] w2 of
                          None \<Rightarrow> None
                        | Some (Inl e, w3) \<Rightarrow> Some (Inl e, self1, w3)
                        | Some (Inr buf, w3) \<Rightarrow> Some (Inr (proc, buf), self1, w3)))))"

text \<open>Leaving a \<^verbatim>\<open>with\<close> block whose \<^verbatim>\<open>__exit__\<close> returns \<^verbatim>\<open>None\<close>: the block's outcome
  stands unless \<^verbatim>\<open>__exit__\<close> raises, and then that exception replaces it.\<close>

definition leave :: "exn + 'a \<Rightarrow> exn + unit \<Rightarrow> exn + 'a" where
  "leave outcome exit_result = (case exit_result of Inl e \<Rightarrow> Inl e | Inr _ \<Rightarrow> outcome)"

definition cmd_output_p ::
  "proc_env \<Rightarrow> pty_env \<Rightarrow> cmd \<Rightarrow> int option \<Rightarrow> kwargs \<Rightarrow> world \<Rightarrow>
     ((exn + result_b) \<times> world) option" where
  "cmd_output_p env tenv argv retcode kw w =
     (if retcode \<noteq> None then Some (Inl (AssertionError None), w)
      else case kw ''stderr'' of
        None \<Rightarrow> Some (Inl (KeyError ''stderr''), w)
      | Some v \<Rightarrow>
          if v \<noteq> STDOUT then Some (Inl (AssertionError (Some v)), w)
          else
            (case extern (\<lambda>w. normalize_cmd env w argv) (NormalizeCmd argv) w of
               (Inl e, w1) \<Rightarrow>
                 (case to_output e of
                    Some out \<Rightarrow> Some (Inr out, w1)
                  | None \<Rightarrow> Some (Inl e, w1))
             | (Inr argv', w1) \<Rightarrow>
                 (case extern (open_devnull tenv) OpenDevnull w1 of
                    (Inl e, w2) \<Rightarrow> Some (Inl e, w2)
                  | (Inr devnull, w2) \<Rightarrow>
                      (case
                         (case Pty_enter tenv Pty_init w2 of
                            (Inl e, self, w3) \<Rightarrow> Some (Inl e, w3)
                          | (Inr _, self, w3) \<Rightarrow>
                              (case pty_body env tenv argv' (setdefault_kwargs kw) devnull self w3 of
                                 None \<Rightarrow> None
                               | Some (outcome, self1, w4) \<Rightarrow>
                                   (case Pty_exit tenv self1 w4 of
                                      (x, self2, w5) \<Rightarrow> Some (leave outcome x, w5))))
                       of
                         None \<Rightarrow> None
                       | Some (outcome, w6) \<Rightarrow>
                           (case extern (\<lambda>w. file_close tenv w devnull) (FileClose devnull) w6 of
                              (x, w7) \<Rightarrow>
                                (case leave outcome x of
                                   Inl e \<Rightarrow> Some (Inl e, w7)
                                 | Inr (proc, buf) \<Rightarrow>
                                     (case extern (\<lambda>w. proc_wait env w proc) (Wait proc) w7 of
                                        (Inl e, w8) \<Rightarrow> Some (Inl e, w8)
                                      | (Inr returncode', w8) \<Rightarrow>
                                          Some (Inr (returncode', Some buf, None), w8))))))))"

text \<open>The reads of a terminal that has the chunks \<open>cs\<close> ready, in this order: each read
  of 4096 bytes, from the world \<open>w\<close> on, answers the next chunk, and no chunk is empty.\<close>

fun delivers :: "pty_env \<Rightarrow> int \<Rightarrow> world \<Rightarrow> bytes list \<Rightarrow> bool" where
  "delivers env fd w [] = True"
| "delivers env fd w (c # cs) =
     (c \<noteq> [] \<and> os_read env w fd 4096 = Inr c \<and> delivers env fd (w @ [OsRead fd 4096]) cs)"

section \<open>Sample environments\<close>

text \<open>Concrete environments, on which the theorems below are instantiated. None of the
  general theorems depends on them.\<close>

subsection \<open>A resolver and a process\<close>

text \<open>The sample resolver knows \<^verbatim>\<open>python\<close> and nothing else; for any other executable
  it fails with exit code 1, a message on stdout and no stderr.\<close>

definition not_found_message :: bytes where
  "not_found_message = [110, 111, 116, 32, 102, 111, 117, 110, 100]"

definition normalize_cmd_sample :: "world \<Rightarrow> cmd \<Rightarrow> exn + cmd" where
  "normalize_cmd_sample w argv =
     (case argv of
        [] \<Rightarrow> Inl (OtherError ''empty command'')
      | exe # args \<Rightarrow>
          if exe = ''python'' then Inr (''/usr/bin/python'' # args)
          else Inl (ExecutableNotFoundError (1, Some not_found_message, None)))"

text \<open>Decoding of ASCII, where UTF-8 is the identity on code points; the sample rejects
  every other byte.\<close>

definition decode_sample :: "bytes \<Rightarrow> exn + unicode" where
  "decode_sample b = (if list_all (\<lambda>x. x < 128) b then Inr (map unat b) else Inl UnicodeDecodeError)"

text \<open>The sample process writes \<^verbatim>\<open>ok\<close> and a newline to stdout, nothing to stderr, and
  exits with code 3.\<close>

definition proc_env_sample :: proc_env where
  "proc_env_sample =
     \<lparr>normalize_cmd = normalize_cmd_sample,
      subprocess_Popen = (\<lambda>w argv kw. Inr 7),
      proc_communicate = (\<lambda>w proc. Inr (Some [111, 107, 10], Some [])),
      proc_returncode = (\<lambda>w proc. 3),
      proc_wait = (\<lambda>w proc. Inr 3),
      bytes_decode = decode_sample\<rparr>"

definition kwargs_none :: kwargs where
  "kwargs_none = Map.empty"

definition kwargs_merged :: kwargs where
  "kwargs_merged = [''stderr'' \<mapsto> STDOUT]"

definition kwargs_split :: kwargs where
  "kwargs_split = [''stderr'' \<mapsto> PIPE]"

subsection \<open>A pseudo-terminal\<close>

text \<open>The sample terminal answers the \<open>k\<close>-th \<^verbatim>\<open>os.read\<close> with the \<open>k\<close>-th entry of a
  script, and with an empty read once the script is used up.\<close>

fun is_read :: "event \<Rightarrow> bool" where
  "is_read (OsRead fd n) = True"
| "is_read _ = False"

definition os_read_script :: "(exn + bytes) list \<Rightarrow> world \<Rightarrow> int \<Rightarrow> nat \<Rightarrow> exn + bytes" where
  "os_read_script script w fd n =
     (let k = length (filter is_read w)
      in if k < length script then script ! k else Inr [])"

definition pty_env_sample :: "(exn + bytes) list \<Rightarrow> pty_env" where
  "pty_env_sample script =
     \<lparr>open_devnull = (\<lambda>w. Inr 3),
      file_close = (\<lambda>w f. Inr ()),
      openpty = (\<lambda>w. Inr (4, 5)),
      tcgetattr = (\<lambda>w fd. Inr \<lparr>iflag = 0, oflag = 5, cflag = 0, lflag = 0,
                                  ispeed = 15, ospeed = 15, cc = []\<rparr>),
      tcsetattr = (\<lambda>w fd attrs. Inr ()),
      ONLCR = 4,
      OPOST = 1,
      os_close = (\<lambda>w fd. Inr ()),
      os_read = os_read_script script\<rparr>"

text \<open>Two chunks, then the hang-up of the terminal.\<close>

definition script_hangup :: "(exn + bytes) list" where
  "script_hangup = [Inr [97, 10], Inr [98, 10], Inl (OSError EIO)]"

text \<open>One chunk, then a failure that is not a hang-up (\<^verbatim>\<open>EBADF\<close>).\<close>

definition script_failure :: "(exn + bytes) list" where
  "script_failure = [Inr [97, 10], Inl (OSError 9)]"

subsection \<open>A filesystem\<close>

text \<open>The sample filesystem holds the directory \<^verbatim>\<open>/tmp\<close>, which belongs to another user, and
  in it a read-only file and a read-only directory with one read-only file. The mode of a
  path is the mode of the last \<^verbatim>\<open>chmod\<close> in the history, or else its initial mode.
  Removing a path fails with \<^verbatim>\<open>EACCES\<close> while its owner-write bit is clear, listing a path
  that is not a directory fails with \<^verbatim>\<open>ENOTDIR\<close> (20), and \<^verbatim>\<open>chmod\<close> on \<^verbatim>\<open>/tmp\<close> fails with
  \<^verbatim>\<open>EPERM\<close> (1).\<close>

definition initial_mode :: "path \<Rightarrow> int option" where
  "initial_mode p =
     (if p = ''/tmp/repo'' then Some 16749
      else if p = ''/tmp/repo/hook'' then Some 33060
      else if p = ''/tmp/lock'' then Some 33060
      else if p = ''/tmp'' then Some 17407
      else None)"

fun chmod_of :: "path \<Rightarrow> event \<Rightarrow> int option \<Rightarrow> int option" where
  "chmod_of p (OsChmod q m) old = (if q = p then Some m else old)"
| "chmod_of p _ old = old"

definition mode_now :: "world \<Rightarrow> path \<Rightarrow> int option" where
  "mode_now w p = (case initial_mode p of None \<Rightarrow> None | Some m \<Rightarrow> fold (chmod_of p) w (Some m))"

definition os_stat_sample :: "world \<Rightarrow> path \<Rightarrow> exn + int" where
  "os_stat_sample w p = (case mode_now w p of None \<Rightarrow> Inl (OSError 2) | Some m \<Rightarrow> Inr m)"

definition os_chmod_sample :: "world \<Rightarrow> path \<Rightarrow> int \<Rightarrow> exn + unit" where
  "os_chmod_sample w p m =
     (case mode_now w p of
        None \<Rightarrow> Inl (OSError 2)
      | Some _ \<Rightarrow> if p = ''/tmp'' then Inl (OSError 1) else Inr ())"

definition os_func_sample :: "world \<Rightarrow> os_func \<Rightarrow> path \<Rightarrow> exn + unit" where
  "os_func_sample w func p =
     (case mode_now w p of
        None \<Rightarrow> Inl (OSError 2)
      | Some m \<Rightarrow>
          if func \<in> {Rmdir, Remove, Unlink} \<and> \<not> bit m 7 then Inl (OSError EACCES)
          else if func = Scandir \<and> \<not> bit m 14 then Inl (OSError 20)
          else Inr ())"

text \<open>\<^verbatim>\<open>posixpath.dirname\<close>\<close>

definition dirname_sample :: "path \<Rightarrow> path" where
  "dirname_sample p =
     (let head = rev (dropWhile (\<lambda>c. c \<noteq> CHR ''/'') (rev p))
      in if head \<noteq> [] \<and> \<not> list_all (\<lambda>c. c = CHR ''/'') head
         then rev (dropWhile (\<lambda>c. c = CHR ''/'') (rev head)) else head)"

text \<open>The sample traversal attempts a list of delete steps in order. A step that fails with
  an \<open>OSError\<close> is handed to the handler; when the handler returns, the traversal goes on,
  and when it raises, the traversal ends with that exception.\<close>

fun delete_steps :: "onerror \<Rightarrow> (os_func \<times> path) list \<Rightarrow> world \<Rightarrow> (exn + unit) \<times> world" where
  "delete_steps h [] w = (Inr (), w)"
| "delete_steps h ((func, p) # steps) w =
     (case extern (\<lambda>w. os_func_sample w func p) (OsFunc func p) w of
        (Inr _, w1) \<Rightarrow> delete_steps h steps w1
      | (Inl (OSError errno), w1) \<Rightarrow>
          (case h func p errno w1 of
             (Inl e, w2) \<Rightarrow> (Inl e, w2)
           | (Inr _, w2) \<Rightarrow> delete_steps h steps w2)
      | (Inl e, w1) \<Rightarrow> (Inl e, w1))"

definition shutil_rmtree_sample :: "path \<Rightarrow> bool \<Rightarrow> onerror \<Rightarrow> world \<Rightarrow> (exn + unit) \<times> world" where
  "shutil_rmtree_sample p ignore_errors h w =
     (if p = ''/tmp/repo'' then delete_steps h [(Unlink, ''/tmp/repo/hook''), (Rmdir, ''/tmp/repo'')] w
      else delete_steps h [(Scandir, p), (Rmdir, p)] w)"

definition fs_env_sample :: fs_env where
  "fs_env_sample =
     \<lparr>os_path_exists = (\<lambda>w p. mode_now w p \<noteq> None),
      os_path_dirname = dirname_sample,
      os_stat_st_mode = os_stat_sample,
      os_chmod = os_chmod_sample,
      os_func = os_func_sample,
      shutil_rmtree = shutil_rmtree_sample\<rparr>"

text \<open>Two scopes for \<^verbatim>\<open>clean_path_on_failure\<close>: one raises, one returns.\<close>

definition scope_raises :: "world \<Rightarrow> (exn + nat) \<times> world" where
  "scope_raises w = (Inl (OtherError ''boom''), w)"

definition scope_returns :: "world \<Rightarrow> (exn + nat) \<times> world" where
  "scope_returns w = (Inr 42, w)"

section \<open>Properties of the filesystem utilities and of the runners\<close>

subsection \<open>Permission bits\<close>

lemma bit_execute_bits:
  "bit (m OR S_IXUSR OR S_IXGRP OR S_IXOTH) n = (bit m n \<or> n = 6 \<or> n = 3 \<or> n = 0)"
proof -
  have b6: "bit (64 :: int) n \<longleftrightarrow> n = 6"
    using bit_exp_iff [where ?'a = int, of 6 n] by simp
  have b3: "bit (8 :: int) n \<longleftrightarrow> n = 3"
    using bit_exp_iff [where ?'a = int, of 3 n] by simp
  have b0: "bit (1 :: int) n \<longleftrightarrow> n = 0"
    by (simp add: bit_1_iff)
  show ?thesis
    unfolding S_IXUSR_def S_IXGRP_def S_IXOTH_def bit_or_iff b6 b3 b0 by blast
qed

lemma bit_owner_write: "bit (m OR S_IWUSR) n = (bit m n \<or> n = 7)"
proof -
  have b7: "bit (128 :: int) n \<longleftrightarrow> n = 7"
    using bit_exp_iff [where ?'a = int, of 7 n] by simp
  show ?thesis
    unfolding S_IWUSR_def bit_or_iff b7 by blast
qed

subsection \<open>Facts about the sample environments\<close>

lemma sample_resolves_python:
  "normalize_cmd proc_env_sample w [''python''] = Inr [''/usr/bin/python'']"
  by (simp add: proc_env_sample_def normalize_cmd_sample_def)

lemma sample_dne_not_found:
  "normalize_cmd proc_env_sample w [''dne''] =
     Inl (ExecutableNotFoundError (1, Some not_found_message, None))"
  by (simp add: proc_env_sample_def normalize_cmd_sample_def)

lemma sample_popen: "subprocess_Popen proc_env_sample w argv kw = Inr 7"
  by (simp add: proc_env_sample_def)

lemma sample_communicate: "proc_communicate proc_env_sample w p = Inr (Some [111, 107, 10], Some [])"
  by (simp add: proc_env_sample_def)

lemma sample_returncode: "proc_returncode proc_env_sample w p = 3"
  by (simp add: proc_env_sample_def)

lemma sample_decode_ok: "bytes_decode proc_env_sample [111, 107, 10] = Inr [111, 107, 10]"
  by (simp add: proc_env_sample_def decode_sample_def)

lemma sample_decode_empty: "bytes_decode proc_env_sample [] = Inr []"
  by (simp add: proc_env_sample_def decode_sample_def)

subsection \<open>The piped runner\<close>

lemma run_b_not_found:
  assumes "normalize_cmd env w argv = Inl (ExecutableNotFoundError out)"
  shows "run_b env argv kw w = (Inr (argv, out), w @ [NormalizeCmd argv])"
  using assms by (simp add: run_b_def extern_def)

lemma run_b_ran:
  assumes "normalize_cmd env w argv = Inr argv'"
    and "subprocess_Popen env (w @ [NormalizeCmd argv]) argv' kw = Inr proc"
    and "proc_communicate env (w @ [NormalizeCmd argv, Popen argv' kw]) proc = Inr (stdout_b, stderr_b)"
  shows "run_b env argv kw w =
           (Inr (argv', proc_returncode env (w @ [NormalizeCmd argv, Popen argv' kw, Communicate proc]) proc,
                 stdout_b, stderr_b),
            w @ [NormalizeCmd argv, Popen argv' kw, Communicate proc])"
  using assms by (simp add: run_b_def extern_def)

lemma run_b_raises:
  assumes "run_b env argv kw w = (Inl e, w')"
  shows "normalize_cmd env w argv = Inl e
         \<or> (\<exists>argv'. normalize_cmd env w argv = Inr argv'
              \<and> (subprocess_Popen env (w @ [NormalizeCmd argv]) argv' kw = Inl e
                 \<or> (\<exists>proc. subprocess_Popen env (w @ [NormalizeCmd argv]) argv' kw = Inr proc
                      \<and> proc_communicate env (w @ [NormalizeCmd argv, Popen argv' kw]) proc = Inl e)))"
  using assms
  by (auto simp add: run_b_def extern_def split: sum.splits option.splits prod.splits)

text \<open>
  Claim C1 as stated fails. With the default \<^verbatim>\<open>retcode=0\<close> and a resolver that fails with
  the non-zero exit code 1, \<open>cmd_output_b\<close> does not return the synthesized triple: the check
  of the exit code applies to it as to any other, and \<open>CalledProcessError\<close> is raised.
\<close>

theorem cmd_output_b_not_found_default_counterexample:
  "normalize_cmd proc_env_sample [] [''dne''] =
     Inl (ExecutableNotFoundError (1, Some not_found_message, None))
   \<and> cmd_output_b proc_env_sample [''dne''] default_retcode kwargs_none [] =
       (Inl (CalledProcessError
              \<lparr>returncode = 1, cmd = [''dne''], expected_returncode = 0,
               stdout = Some not_found_message, stderr = None\<rparr>),
        [NormalizeCmd [''dne'']])"
  by (simp add: cmd_output_b_def run_b_not_found sample_dne_not_found default_retcode_def
      CalledProcessError_init_def)

text \<open>
  Claim C1, amended. When the resolver fails with \<open>ExecutableNotFoundError\<close>, \<open>cmd_output_b\<close>
  makes no external call but the one to the resolver (no process is spawned) and takes
  \<^verbatim>\<open>(returncode, stdout, stderr)\<close> from the resolver's failure. Called with no expectation
  (\<^verbatim>\<open>retcode=None\<close>), or with an expectation equal to that exit code, it returns the triple
  as data. Called with the default expectation 0 when that exit code is not zero, it raises
  \<open>CalledProcessError\<close> carrying the caller's command, the exit code, the expectation 0
  and the two streams.
\<close>

theorem cmd_output_b_executable_not_found:
  assumes "normalize_cmd env w argv = Inl (ExecutableNotFoundError (rc, stdout_b, stderr_b))"
  shows "cmd_output_b env argv None kw w = (Inr (rc, stdout_b, stderr_b), w @ [NormalizeCmd argv])
    \<and> cmd_output_b env argv (Some rc) kw w = (Inr (rc, stdout_b, stderr_b), w @ [NormalizeCmd argv])
    \<and> (rc \<noteq> 0 \<longrightarrow>
         cmd_output_b env argv default_retcode kw w =
           (Inl (CalledProcessError
                  \<lparr>returncode = rc, cmd = argv, expected_returncode = 0,
                   stdout = stdout_b, stderr = stderr_b\<rparr>),
            w @ [NormalizeCmd argv]))
    \<and> snd (cmd_output_b env argv retcode kw w) = w @ [NormalizeCmd argv]"
  using assms
  by (simp add: cmd_output_b_def run_b_not_found default_retcode_def CalledProcessError_init_def
      split: option.splits)

theorem cmd_output_b_executable_not_found_witness:
  "cmd_output_b proc_env_sample [''dne''] None kwargs_none [] =
     (Inr (1, Some not_found_message, None), [NormalizeCmd [''dne'']])
   \<and> cmd_output_b proc_env_sample [''dne''] (Some 1) kwargs_none [] =
     (Inr (1, Some not_found_message, None), [NormalizeCmd [''dne'']])
   \<and> cmd_output_b proc_env_sample [''dne''] default_retcode kwargs_none [] =
       (Inl (CalledProcessError
              \<lparr>returncode = 1, cmd = [''dne''], expected_returncode = 0,
               stdout = Some not_found_message, stderr = None\<rparr>),
        [NormalizeCmd [''dne'']])"
  using cmd_output_b_executable_not_found [OF sample_dne_not_found [of "[]"], where kw = kwargs_none]
  by simp

text \<open>
  Claim C2. With \<^verbatim>\<open>retcode=None\<close>, \<open>cmd_output_b\<close> returns the triple of the run whatever
  the exit code: the resolver's triple when the executable is not found, and otherwise the
  exit code, stdout and stderr of the process. It raises nothing of its own: an exception
  that leaves it was raised by the resolver, by \<^verbatim>\<open>Popen\<close> or by \<^verbatim>\<open>communicate\<close>.
\<close>

theorem cmd_output_b_without_expectation:
  "(normalize_cmd env w argv = Inl (ExecutableNotFoundError out) \<longrightarrow>
      cmd_output_b env argv None kw w = (Inr out, w @ [NormalizeCmd argv]))
   \<and> (normalize_cmd env w argv = Inr argv'
      \<and> subprocess_Popen env (w @ [NormalizeCmd argv]) argv' (setdefault_kwargs kw) = Inr proc
      \<and> proc_communicate env (w @ [NormalizeCmd argv, Popen argv' (setdefault_kwargs kw)]) proc
          = Inr (stdout_b, stderr_b) \<longrightarrow>
      cmd_output_b env argv None kw w =
        (Inr (proc_returncode env
                (w @ [NormalizeCmd argv, Popen argv' (setdefault_kwargs kw), Communicate proc]) proc,
              stdout_b, stderr_b),
         w @ [NormalizeCmd argv, Popen argv' (setdefault_kwargs kw), Communicate proc]))
   \<and> (cmd_output_b env argv None kw w = (Inl e, w') \<longrightarrow>
        normalize_cmd env w argv = Inl e
        \<or> (\<exists>argv'. normalize_cmd env w argv = Inr argv'
             \<and> (subprocess_Popen env (w @ [NormalizeCmd argv]) argv' (setdefault_kwargs kw) = Inl e
                \<or> (\<exists>proc. subprocess_Popen env (w @ [NormalizeCmd argv]) argv' (setdefault_kwargs kw) = Inr proc
                     \<and> proc_communicate env (w @ [NormalizeCmd argv, Popen argv' (setdefault_kwargs kw)]) proc
                         = Inl e))))"
proof (intro conjI impI)
  assume "normalize_cmd env w argv = Inl (ExecutableNotFoundError out)"
  then show "cmd_output_b env argv None kw w = (Inr out, w @ [NormalizeCmd argv])"
    by (cases out) (simp add: cmd_output_b_def run_b_not_found)
next
  assume "normalize_cmd env w argv = Inr argv'
      \<and> subprocess_Popen env (w @ [NormalizeCmd argv]) argv' (setdefault_kwargs kw) = Inr proc
      \<and> proc_communicate env (w @ [NormalizeCmd argv, Popen argv' (setdefault_kwargs kw)]) proc
          = Inr (stdout_b, stderr_b)"
  then show "cmd_output_b env argv None kw w =
        (Inr (proc_returncode env
                (w @ [NormalizeCmd argv, Popen argv' (setdefault_kwargs kw), Communicate proc]) proc,
              stdout_b, stderr_b),
         w @ [NormalizeCmd argv, Popen argv' (setdefault_kwargs kw), Communicate proc])"
    by (simp add: cmd_output_b_def run_b_ran)
next
  assume "cmd_output_b env argv None kw w = (Inl e, w')"
  then have "run_b env argv (setdefault_kwargs kw) w = (Inl e, w')"
    by (auto simp add: cmd_output_b_def split: sum.splits prod.splits)
  then show "normalize_cmd env w argv = Inl e
        \<or> (\<exists>argv'. normalize_cmd env w argv = Inr argv'
             \<and> (subprocess_Popen env (w @ [NormalizeCmd argv]) argv' (setdefault_kwargs kw) = Inl e
                \<or> (\<exists>proc. subprocess_Popen env (w @ [NormalizeCmd argv]) argv' (setdefault_kwargs kw) = Inr proc
                     \<and> proc_communicate env (w @ [NormalizeCmd argv, Popen argv' (setdefault_kwargs kw)]) proc
                         = Inl e)))"
    by (rule run_b_raises)
qed

theorem cmd_output_b_without_expectation_witness:
  "cmd_output_b proc_env_sample [''python''] None kwargs_none [] =
     (Inr (3, Some [111, 107, 10], Some []),
      [NormalizeCmd [''python''], Popen [''/usr/bin/python''] (setdefault_kwargs kwargs_none),
       Communicate 7])
   \<and> cmd_output_b proc_env_sample [''dne''] None kwargs_none [] =
       (Inr (1, Some not_found_message, None), [NormalizeCmd [''dne'']])"
  using cmd_output_b_without_expectation
    [where env = proc_env_sample and w = "[]" and argv = "[''python'']"
       and argv' = "[''/usr/bin/python'']" and kw = kwargs_none and proc = 7
       and stdout_b = "Some [111, 107, 10]" and stderr_b = "Some []"]
    cmd_output_b_without_expectation
    [where env = proc_env_sample and w = "[]" and argv = "[''dne'']"
       and out = "(1, Some not_found_message, None)" and kw = kwargs_none]
  by (simp add: sample_resolves_python sample_dne_not_found sample_popen sample_communicate
      sample_returncode)

text \<open>
  Claim C3 as stated fails on the field \<^verbatim>\<open>cmd\<close>. \<open>cmd_output_b\<close> rebinds \<^verbatim>\<open>cmd\<close> to what the
  resolver returns, so the error of a run of \<^verbatim>\<open>('python',)\<close> carries the normalized command
  \<^verbatim>\<open>('/usr/bin/python',)\<close>, not the command of the invocation.
\<close>

theorem CalledProcessError_cmd_counterexample:
  "cmd_output_b proc_env_sample [''python''] (Some 0) kwargs_none [] =
     (Inl (CalledProcessError
            \<lparr>returncode = 3, cmd = [''/usr/bin/python''], expected_returncode = 0,
             stdout = Some [111, 107, 10], stderr = Some []\<rparr>),
      [NormalizeCmd [''python''], Popen [''/usr/bin/python''] (setdefault_kwargs kwargs_none),
       Communicate 7])
   \<and> [''/usr/bin/python''] \<noteq> [''python'']"
  by (simp add: cmd_output_b_def run_b_ran sample_resolves_python sample_popen
      sample_communicate sample_returncode CalledProcessError_init_def)

text \<open>
  Claim C3, amended. When an expected exit code is supplied and differs from the actual
  one, the fields of the \<open>CalledProcessError\<close> raised are: \<^verbatim>\<open>returncode\<close> the actual exit
  code, \<^verbatim>\<open>expected_returncode\<close> the supplied one, \<^verbatim>\<open>stdout\<close> and \<^verbatim>\<open>stderr\<close> the streams
  of that run, and \<^verbatim>\<open>cmd\<close> the command as the run used it: the resolver's normalized command
  when the resolver returned one, the caller's command when the executable was not found.
\<close>

theorem CalledProcessError_fields:
  "(normalize_cmd env w argv = Inr argv'
      \<and> subprocess_Popen env (w @ [NormalizeCmd argv]) argv' (setdefault_kwargs kw) = Inr proc
      \<and> proc_communicate env (w @ [NormalizeCmd argv, Popen argv' (setdefault_kwargs kw)]) proc
          = Inr (stdout_b, stderr_b)
      \<and> proc_returncode env
           (w @ [NormalizeCmd argv, Popen argv' (setdefault_kwargs kw), Communicate proc]) proc = rc
      \<and> expected \<noteq> rc \<longrightarrow>
      cmd_output_b env argv (Some expected) kw w =
        (Inl (CalledProcessError
               \<lparr>returncode = rc, cmd = argv', expected_returncode = expected,
                stdout = stdout_b, stderr = stderr_b\<rparr>),
         w @ [NormalizeCmd argv, Popen argv' (setdefault_kwargs kw), Communicate proc]))
   \<and> (normalize_cmd env w argv = Inl (ExecutableNotFoundError (rc, stdout_b, stderr_b))
      \<and> expected \<noteq> rc \<longrightarrow>
      cmd_output_b env argv (Some expected) kw w =
        (Inl (CalledProcessError
               \<lparr>returncode = rc, cmd = argv, expected_returncode = expected,
                stdout = stdout_b, stderr = stderr_b\<rparr>),
         w @ [NormalizeCmd argv]))"
  by (simp add: cmd_output_b_def run_b_ran run_b_not_found CalledProcessError_init_def)

theorem CalledProcessError_fields_witness:
  "cmd_output_b proc_env_sample [''python''] (Some 0) kwargs_none [] =
     (Inl (CalledProcessError
            \<lparr>returncode = 3, cmd = [''/usr/bin/python''], expected_returncode = 0,
             stdout = Some [111, 107, 10], stderr = Some []\<rparr>),
      [NormalizeCmd [''python''], Popen [''/usr/bin/python''] (setdefault_kwargs kwargs_none),
       Communicate 7])
   \<and> cmd_output_b proc_env_sample [''dne''] (Some 0) kwargs_none [] =
       (Inl (CalledProcessError
              \<lparr>returncode = 1, cmd = [''dne''], expected_returncode = 0,
               stdout = Some not_found_message, stderr = None\<rparr>),
        [NormalizeCmd [''dne'']])"
  using CalledProcessError_fields
    [where env = proc_env_sample and w = "[]" and argv = "[''python'']"
       and argv' = "[''/usr/bin/python'']" and kw = kwargs_none and proc = 7
       and stdout_b = "Some [111, 107, 10]" and stderr_b = "Some []" and rc = 3 and expected = 0]
    CalledProcessError_fields
    [where env = proc_env_sample and w = "[]" and argv = "[''dne'']" and kw = kwargs_none
       and stdout_b = "Some not_found_message" and stderr_b = None and rc = 1 and expected = 0]
  by (simp add: sample_resolves_python sample_dne_not_found sample_popen sample_communicate
      sample_returncode)

text \<open>
  Claim C6. \<open>cmd_output\<close> returns the result of \<open>cmd_output_b\<close> with stdout and stderr
  decoded, each on its own and only when present: an absent stream stays absent, a present
  one is replaced by its decoding. Whenever the streams that are present decode (they hold
  valid UTF-8), the text result is the byte result decoded, in the same world; an exception
  of the byte runner leaves the text runner unchanged.
\<close>

theorem cmd_output_decodes_cmd_output_b:
  "(cmd_output_b env argv retcode kw w = (Inr (rc, stdout_b, stderr_b), w')
      \<and> decode_if_present env stdout_b = Inr stdout_t
      \<and> decode_if_present env stderr_b = Inr stderr_t \<longrightarrow>
      cmd_output env argv retcode kw w = (Inr (rc, stdout_t, stderr_t), w'))
   \<and> (cmd_output_b env argv retcode kw w = (Inl e, w') \<longrightarrow>
        cmd_output env argv retcode kw w = (Inl e, w'))
   \<and> decode_if_present env None = Inr None
   \<and> (bytes_decode env b = Inr t \<longrightarrow> decode_if_present env (Some b) = Inr (Some t))
   \<and> (bytes_decode env b = Inl e \<longrightarrow> decode_if_present env (Some b) = Inl e)"
  by (simp add: cmd_output_def decode_if_present_def)

theorem cmd_output_decodes_cmd_output_b_witness:
  "cmd_output proc_env_sample [''python''] None kwargs_split [] =
     (Inr (3, Some [111, 107, 10], Some []),
      [NormalizeCmd [''python''], Popen [''/usr/bin/python''] (setdefault_kwargs kwargs_split),
       Communicate 7])"
proof -
  have b: "cmd_output_b proc_env_sample [''python''] None kwargs_split [] =
     (Inr (3, Some [111, 107, 10], Some []),
      [NormalizeCmd [''python''], Popen [''/usr/bin/python''] (setdefault_kwargs kwargs_split),
       Communicate 7])"
    by (simp add: cmd_output_b_def run_b_ran sample_resolves_python sample_popen
        sample_communicate sample_returncode)
  have d1: "decode_if_present proc_env_sample (Some [111, 107, 10]) = Inr (Some [111, 107, 10])"
    by (simp add: decode_if_present_def sample_decode_ok)
  have d2: "decode_if_present proc_env_sample (Some []) = Inr (Some [])"
    by (simp add: decode_if_present_def sample_decode_empty)
  show ?thesis
    using cmd_output_decodes_cmd_output_b
      [where env = proc_env_sample and argv = "[''python'']" and retcode = None
         and kw = kwargs_split and w = "[]" and rc = 3 and stdout_b = "Some [111, 107, 10]"
         and stderr_b = "Some []" and stdout_t = "Some [111, 107, 10]" and stderr_t = "Some []"]
      b d1 d2
    by simp
qed

subsection \<open>The pseudo-terminal session\<close>

text \<open>
  Claim C4 as stated fails for the read end. A second \<open>close_r\<close> meets
  \<^verbatim>\<open>assert self.r is not None\<close> and raises \<open>AssertionError\<close>.
\<close>

theorem close_r_twice_counterexample:
  "close_r (pty_env_sample []) \<lparr>pty_r = Some 4, pty_w = None\<rparr> [] =
     (Inr (), \<lparr>pty_r = None, pty_w = None\<rparr>, [OsClose 4])
   \<and> close_r (pty_env_sample []) \<lparr>pty_r = None, pty_w = None\<rparr> [OsClose 4] =
     (Inl (AssertionError None), \<lparr>pty_r = None, pty_w = None\<rparr>, [OsClose 4])"
  by (simp add: close_r_def extern_def pty_env_sample_def)

text \<open>
  Claim C4, amended. \<open>close_w\<close> on a write end that is already closed is a no-op: it returns
  normally and changes neither the object nor the world, and a \<open>close_w\<close> that returned
  normally leaves the write end closed. \<open>close_r\<close> is not idempotent: on a read end that is
  already closed, and so after a \<open>close_r\<close> that returned normally, it raises
  \<open>AssertionError\<close> without calling \<^verbatim>\<open>os.close\<close>.
\<close>

theorem close_w_idempotent_close_r_once:
  "(pty_w self = None \<longrightarrow> close_w env self w = (Inr (), self, w))
   \<and> (close_w env self w = (Inr (), self1, w1) \<longrightarrow>
        pty_w self1 = None \<and> close_w env self1 w1 = (Inr (), self1, w1))
   \<and> (pty_r self = None \<longrightarrow> close_r env self w = (Inl (AssertionError None), self, w))
   \<and> (close_r env self w = (Inr (), self1, w1) \<longrightarrow>
        pty_r self1 = None \<and> close_r env self1 w1 = (Inl (AssertionError None), self1, w1))"
  by (auto simp add: close_w_def close_r_def extern_def split: option.splits sum.splits)

theorem close_w_idempotent_close_r_once_witness:
  "close_w (pty_env_sample []) \<lparr>pty_r = Some 4, pty_w = Some 5\<rparr> [] =
     (Inr (), \<lparr>pty_r = Some 4, pty_w = None\<rparr>, [OsClose 5])
   \<and> close_w (pty_env_sample []) \<lparr>pty_r = Some 4, pty_w = None\<rparr> [OsClose 5] =
     (Inr (), \<lparr>pty_r = Some 4, pty_w = None\<rparr>, [OsClose 5])
   \<and> close_r (pty_env_sample []) \<lparr>pty_r = Some 4, pty_w = None\<rparr> [OsClose 5] =
     (Inr (), \<lparr>pty_r = None, pty_w = None\<rparr>, [OsClose 5, OsClose 4])
   \<and> close_r (pty_env_sample []) \<lparr>pty_r = None, pty_w = None\<rparr> [OsClose 5, OsClose 4] =
     (Inl (AssertionError None), \<lparr>pty_r = None, pty_w = None\<rparr>, [OsClose 5, OsClose 4])"
proof -
  have cw: "close_w (pty_env_sample []) \<lparr>pty_r = Some 4, pty_w = Some 5\<rparr> [] =
     (Inr (), \<lparr>pty_r = Some 4, pty_w = None\<rparr>, [OsClose 5])"
    by (simp add: close_w_def extern_def pty_env_sample_def)
  have cr: "close_r (pty_env_sample []) \<lparr>pty_r = Some 4, pty_w = None\<rparr> [OsClose 5] =
     (Inr (), \<lparr>pty_r = None, pty_w = None\<rparr>, [OsClose 5, OsClose 4])"
    by (simp add: close_r_def extern_def pty_env_sample_def)
  show ?thesis
    using close_w_idempotent_close_r_once
      [where env = "pty_env_sample []" and self = "\<lparr>pty_r = Some 4, pty_w = Some 5\<rparr>"
         and w = "[]" and ?self1.0 = "\<lparr>pty_r = Some 4, pty_w = None\<rparr>" and ?w1.0 = "[OsClose 5]"]
      close_w_idempotent_close_r_once
      [where env = "pty_env_sample []" and self = "\<lparr>pty_r = Some 4, pty_w = None\<rparr>"
         and w = "[OsClose 5]" and ?self1.0 = "\<lparr>pty_r = None, pty_w = None\<rparr>"
         and ?w1.0 = "[OsClose 5, OsClose 4]"]
      cw cr
    by simp
qed

subsection \<open>The pty runner\<close>

lemma read_loop_chunk:
  assumes "os_read env w fd 4096 = Inr c" and "c \<noteq> []"
  shows "read_loop env fd buf w = read_loop env fd (buf @ c) (w @ [OsRead fd 4096])"
  by (subst read_loop.simps) (simp add: extern_def assms)

lemma read_loop_delivers:
  "delivers env fd w cs \<Longrightarrow>
     read_loop env fd buf w =
       read_loop env fd (buf @ concat cs) (w @ replicate (length cs) (OsRead fd 4096))"
proof (induction cs arbitrary: buf w)
  case Nil
  then show ?case by simp
next
  case (Cons c cs)
  from Cons.prems have c: "c \<noteq> []" "os_read env w fd 4096 = Inr c"
    and rest: "delivers env fd (w @ [OsRead fd 4096]) cs"
    by simp_all
  have "read_loop env fd buf w = read_loop env fd (buf @ c) (w @ [OsRead fd 4096])"
    using c by (simp add: read_loop_chunk)
  also have "\<dots> = read_loop env fd ((buf @ c) @ concat cs)
                      ((w @ [OsRead fd 4096]) @ replicate (length cs) (OsRead fd 4096))"
    by (rule Cons.IH [OF rest])
  finally show ?case by simp
qed

lemma read_loop_empty_read:
  assumes "os_read env w fd 4096 = Inr []"
  shows "read_loop env fd buf w = Some (Inr buf, w @ [OsRead fd 4096])"
  by (subst read_loop.simps) (simp add: extern_def assms)

lemma read_loop_hangup:
  assumes "os_read env w fd 4096 = Inl (OSError EIO)"
  shows "read_loop env fd buf w = Some (Inr buf, w @ [OsRead fd 4096])"
  by (subst read_loop.simps) (simp add: extern_def assms)

lemma read_loop_failure:
  assumes "os_read env w fd 4096 = Inl e" and "e \<noteq> OSError EIO"
  shows "read_loop env fd buf w = Some (Inl e, w @ [OsRead fd 4096])"
  using assms by (subst read_loop.simps) (auto simp add: extern_def split: exn.splits)

text \<open>A terminal that always has bytes ready keeps the loop reading: the call does not
  return.\<close>

lemma read_loop_never_ends:
  assumes "\<And>w'. \<exists>c. os_read env w' fd 4096 = Inr c \<and> c \<noteq> []"
  shows "read_loop env fd buf w = None"
proof (rule ccontr)
  assume "read_loop env fd buf w \<noteq> None"
  then obtain y where y: "read_loop env fd buf w = Some y"
    by auto
  have "env = env \<and> fd = fd \<longrightarrow> False"
  proof (rule read_loop.raw_induct
      [where P = "\<lambda>env' fd' buf' w' y'. env' = env \<and> fd' = fd \<longrightarrow> False", OF _ y])
    fix loop :: "pty_env \<Rightarrow> int \<Rightarrow> bytes \<Rightarrow> world \<Rightarrow> ((exn + bytes) \<times> world) option"
      and env' fd' buf' w' y'
    assume IH: "\<And>fd'' buf'' w'' b y''. loop fd'' buf'' w'' b = Some y'' \<Longrightarrow> fd'' = env \<and> buf'' = fd \<longrightarrow> False"
      and step: "(case extern (\<lambda>w. os_read env' w fd' 4096) (OsRead fd' 4096) w' of
          (Inl e, w1) \<Rightarrow>
            (case e of
               OSError errno \<Rightarrow> if errno = EIO then Some (Inr buf', w1) else Some (Inl e, w1)
             | _ \<Rightarrow> Some (Inl e, w1))
        | (Inr bts, w1) \<Rightarrow>
            (if bts = [] then Some (Inr (buf' @ bts), w1) else loop env' fd' (buf' @ bts) w1)) = Some y'"
    show "env' = env \<and> fd' = fd \<longrightarrow> False"
    proof
      assume eq: "env' = env \<and> fd' = fd"
      obtain c where c: "os_read env w' fd 4096 = Inr c" "c \<noteq> []"
        using assms by blast
      from step eq c have "loop env fd (buf' @ c) (w' @ [OsRead fd 4096]) = Some y'"
        by (simp add: extern_def)
      from IH [OF this] show False
        by simp
    qed
  qed
  then show False
    by simp
qed

lemma Pty_enter_returns:
  assumes "openpty tenv w = Inr (r, wfd)"
    and "tcgetattr tenv (w @ [OpenPty]) r = Inr attrs"
    and "tcsetattr tenv (w @ [OpenPty, TcGetAttr r]) r
           (attrs\<lparr>oflag := oflag attrs AND NOT (ONLCR tenv OR OPOST tenv)\<rparr>) = Inr ()"
  shows "Pty_enter tenv Pty_init w =
           (Inr (), \<lparr>pty_r = Some r, pty_w = Some wfd\<rparr>,
            w @ [OpenPty, TcGetAttr r,
                 TcSetAttr r (attrs\<lparr>oflag := oflag attrs AND NOT (ONLCR tenv OR OPOST tenv)\<rparr>)])"
  using assms by (simp add: Pty_enter_def Pty_init_def extern_def Let_def)

lemma pty_body_returns:
  assumes "subprocess_Popen env w argv'
             (kw(''stdin'' \<mapsto> PyFile devnull, ''stdout'' \<mapsto> PyInt wfd, ''stderr'' \<mapsto> PyInt wfd))
           = Inr proc"
    and "os_close tenv
           (w @ [Popen argv'
                   (kw(''stdin'' \<mapsto> PyFile devnull, ''stdout'' \<mapsto> PyInt wfd, ''stderr'' \<mapsto> PyInt wfd))])
           wfd = Inr ()"
    and "read_loop tenv r []
           (w @ [Popen argv'
                   (kw(''stdin'' \<mapsto> PyFile devnull, ''stdout'' \<mapsto> PyInt wfd, ''stderr'' \<mapsto> PyInt wfd)),
                 OsClose wfd]) = Some (res, w3)"
  shows "pty_body env tenv argv' kw devnull \<lparr>pty_r = Some r, pty_w = Some wfd\<rparr> w =
           Some (case res of Inl e \<Rightarrow> Inl e | Inr buf \<Rightarrow> Inr (proc, buf),
                 \<lparr>pty_r = Some r, pty_w = None\<rparr>, w3)"
  using assms by (simp add: pty_body_def close_w_def extern_def Let_def split: sum.splits)

lemma Pty_exit_returns:
  assumes "os_close tenv w r = Inr ()"
  shows "Pty_exit tenv \<lparr>pty_r = Some r, pty_w = None\<rparr> w =
           (Inr (), \<lparr>pty_r = None, pty_w = None\<rparr>, w @ [OsClose r])"
  using assms by (simp add: Pty_exit_def close_w_def close_r_def extern_def)

lemma cmd_output_p_after_loop:
  fixes tenv :: pty_env and attrs :: termios_attrs and kw :: kwargs
    and devnull :: fileobj and wfd :: int
  defines "attrs1 \<equiv> attrs\<lparr>oflag := oflag attrs AND NOT (ONLCR tenv OR OPOST tenv)\<rparr>"
    and "kw1 \<equiv> (setdefault_kwargs kw)
                  (''stdin'' \<mapsto> PyFile devnull, ''stdout'' \<mapsto> PyInt wfd, ''stderr'' \<mapsto> PyInt wfd)"
  assumes "kw ''stderr'' = Some STDOUT"
    and "normalize_cmd env w argv = Inr argv'"
    and "open_devnull tenv (w @ [NormalizeCmd argv]) = Inr devnull"
    and "openpty tenv (w @ [NormalizeCmd argv, OpenDevnull]) = Inr (r, wfd)"
    and "tcgetattr tenv (w @ [NormalizeCmd argv, OpenDevnull, OpenPty]) r = Inr attrs"
    and "tcsetattr tenv (w @ [NormalizeCmd argv, OpenDevnull, OpenPty, TcGetAttr r]) r attrs1 = Inr ()"
    and "subprocess_Popen env
           (w @ [NormalizeCmd argv, OpenDevnull, OpenPty, TcGetAttr r, TcSetAttr r attrs1])
           argv' kw1 = Inr proc"
    and "os_close tenv
           (w @ [NormalizeCmd argv, OpenDevnull, OpenPty, TcGetAttr r, TcSetAttr r attrs1,
                 Popen argv' kw1]) wfd = Inr ()"
    and "read_loop tenv r []
           (w @ [NormalizeCmd argv, OpenDevnull, OpenPty, TcGetAttr r, TcSetAttr r attrs1,
                 Popen argv' kw1, OsClose wfd]) = Some (res, w3)"
    and "os_close tenv w3 r = Inr ()"
    and "file_close tenv (w3 @ [OsClose r]) devnull = Inr ()"
  shows "cmd_output_p env tenv argv None kw w =
           (case res of
              Inl e \<Rightarrow> Some (Inl e, w3 @ [OsClose r, FileClose devnull])
            | Inr buf \<Rightarrow>
                (case proc_wait env (w3 @ [OsClose r, FileClose devnull]) proc of
                   Inl e \<Rightarrow> Some (Inl e, w3 @ [OsClose r, FileClose devnull, Wait proc])
                 | Inr rc \<Rightarrow>
                     Some (Inr (rc, Some buf, None), w3 @ [OsClose r, FileClose devnull, Wait proc])))"
proof -
  have enter: "Pty_enter tenv Pty_init (w @ [NormalizeCmd argv, OpenDevnull]) =
           (Inr (), \<lparr>pty_r = Some r, pty_w = Some wfd\<rparr>,
            w @ [NormalizeCmd argv, OpenDevnull, OpenPty, TcGetAttr r, TcSetAttr r attrs1])"
    using Pty_enter_returns [of tenv "w @ [NormalizeCmd argv, OpenDevnull]" r wfd attrs] assms
    by simp
  have body: "pty_body env tenv argv' (setdefault_kwargs kw) devnull \<lparr>pty_r = Some r, pty_w = Some wfd\<rparr>
                (w @ [NormalizeCmd argv, OpenDevnull, OpenPty, TcGetAttr r, TcSetAttr r attrs1]) =
           Some (case res of Inl e \<Rightarrow> Inl e | Inr buf \<Rightarrow> Inr (proc, buf),
                 \<lparr>pty_r = Some r, pty_w = None\<rparr>, w3)"
    using pty_body_returns
      [of env "w @ [NormalizeCmd argv, OpenDevnull, OpenPty, TcGetAttr r, TcSetAttr r attrs1]"
          argv' "setdefault_kwargs kw" devnull wfd proc tenv r res w3] assms
    by simp
  have exit: "Pty_exit tenv \<lparr>pty_r = Some r, pty_w = None\<rparr> w3 =
           (Inr (), \<lparr>pty_r = None, pty_w = None\<rparr>, w3 @ [OsClose r])"
    using assms by (simp add: Pty_exit_returns)
  show ?thesis
    using assms(3-5) assms(13)
    by (simp add: cmd_output_p_def extern_def enter body exit leave_def split: sum.splits)
qed

text \<open>
  Claim C5. In pty mode, once the process is spawned and the write end closed, every read
  asks for 4096 bytes. While the reads answer the non-empty chunks \<open>cs\<close>, the chunks are
  appended to the buffer. When the next read answers zero bytes, or fails with \<^verbatim>\<open>EIO\<close>, the
  loop ends, the session and the null input are closed, and the function returns the exit
  code \<^verbatim>\<open>proc.wait()\<close> gives, the accumulated buffer \<open>concat cs\<close> and \<^verbatim>\<open>None\<close> for stderr.
  When the next read fails with anything else, that exception leaves the function unchanged,
  after the same clean-up and without waiting for the process.
\<close>

theorem cmd_output_p_reads_until_end_of_stream:
  fixes tenv :: pty_env and attrs :: termios_attrs and kw :: kwargs
    and devnull :: fileobj and r :: int and wfd :: int and w :: world and cs :: "bytes list"
    and argv :: cmd and argv' :: cmd
    and attrs1 :: termios_attrs and kw1 :: kwargs
    and w_spawned :: world and w_last :: world and w_closed :: world
  defines "attrs1 \<equiv> attrs\<lparr>oflag := oflag attrs AND NOT (ONLCR tenv OR OPOST tenv)\<rparr>"
    and "kw1 \<equiv> (setdefault_kwargs kw)
                  (''stdin'' \<mapsto> PyFile devnull, ''stdout'' \<mapsto> PyInt wfd, ''stderr'' \<mapsto> PyInt wfd)"
    and "w_spawned \<equiv>
           w @ [NormalizeCmd argv, OpenDevnull, OpenPty, TcGetAttr r, TcSetAttr r attrs1,
                Popen argv' kw1, OsClose wfd]"
    and "w_last \<equiv> w_spawned @ replicate (length cs) (OsRead r 4096)"
    and "w_closed \<equiv>
           w_spawned @ replicate (length cs + 1) (OsRead r 4096) @ [OsClose r, FileClose devnull]"
  assumes "kw ''stderr'' = Some STDOUT"
    and "normalize_cmd env w argv = Inr argv'"
    and "open_devnull tenv (w @ [NormalizeCmd argv]) = Inr devnull"
    and "openpty tenv (w @ [NormalizeCmd argv, OpenDevnull]) = Inr (r, wfd)"
    and "tcgetattr tenv (w @ [NormalizeCmd argv, OpenDevnull, OpenPty]) r = Inr attrs"
    and "tcsetattr tenv (w @ [NormalizeCmd argv, OpenDevnull, OpenPty, TcGetAttr r]) r attrs1 = Inr ()"
    and "subprocess_Popen env
           (w @ [NormalizeCmd argv, OpenDevnull, OpenPty, TcGetAttr r, TcSetAttr r attrs1])
           argv' kw1 = Inr proc"
    and "os_close tenv
           (w @ [NormalizeCmd argv, OpenDevnull, OpenPty, TcGetAttr r, TcSetAttr r attrs1,
                 Popen argv' kw1]) wfd = Inr ()"
    and "delivers tenv r w_spawned cs"
    and "os_close tenv (w_last @ [OsRead r 4096]) r = Inr ()"
    and "file_close tenv (w_last @ [OsRead r 4096, OsClose r]) devnull = Inr ()"
  shows "((os_read tenv w_last r 4096 = Inr [] \<or> os_read tenv w_last r 4096 = Inl (OSError EIO))
            \<and> proc_wait env w_closed proc = Inr rc \<longrightarrow>
          cmd_output_p env tenv argv None kw w =
            Some (Inr (rc, Some (concat cs), None), w_closed @ [Wait proc]))
       \<and> (os_read tenv w_last r 4096 = Inl e \<and> e \<noteq> OSError EIO \<longrightarrow>
          cmd_output_p env tenv argv None kw w = Some (Inl e, w_closed))"
proof -
  have closed: "w_closed = (w_last @ [OsRead r 4096]) @ [OsClose r, FileClose devnull]"
    by (simp add: w_closed_def w_last_def replicate_append_same)
  have start: "read_loop tenv r [] w_spawned = read_loop tenv r (concat cs) w_last"
    using read_loop_delivers [OF assms(14), of "[]"] by (simp add: w_last_def)
  note after = cmd_output_p_after_loop
    [OF assms(6-13) [unfolded attrs1_def kw1_def], folded attrs1_def kw1_def,
     where ?w3.0 = "w_last @ [OsRead r 4096]"]
  show ?thesis
  proof (intro conjI impI)
    assume a: "(os_read tenv w_last r 4096 = Inr [] \<or> os_read tenv w_last r 4096 = Inl (OSError EIO))
            \<and> proc_wait env w_closed proc = Inr rc"
    then have "read_loop tenv r (concat cs) w_last = Some (Inr (concat cs), w_last @ [OsRead r 4096])"
      using read_loop_empty_read read_loop_hangup by blast
    with start have "read_loop tenv r []
           (w @ [NormalizeCmd argv, OpenDevnull, OpenPty, TcGetAttr r, TcSetAttr r attrs1,
                 Popen argv' kw1, OsClose wfd]) = Some (Inr (concat cs), w_last @ [OsRead r 4096])"
      by (simp add: w_spawned_def)
    from after [OF this assms(15)] assms(16) a
    show "cmd_output_p env tenv argv None kw w =
            Some (Inr (rc, Some (concat cs), None), w_closed @ [Wait proc])"
      by (simp add: closed)
  next
    assume a: "os_read tenv w_last r 4096 = Inl e \<and> e \<noteq> OSError EIO"
    then have "read_loop tenv r (concat cs) w_last = Some (Inl e, w_last @ [OsRead r 4096])"
      by (simp add: read_loop_failure)
    with start have "read_loop tenv r []
           (w @ [NormalizeCmd argv, OpenDevnull, OpenPty, TcGetAttr r, TcSetAttr r attrs1,
                 Popen argv' kw1, OsClose wfd]) = Some (Inl e, w_last @ [OsRead r 4096])"
      by (simp add: w_spawned_def)
    from after [OF this assms(15)] assms(16)
    show "cmd_output_p env tenv argv None kw w = Some (Inl e, w_closed)"
      by (simp add: closed)
  qed
qed

theorem cmd_output_p_reads_until_end_of_stream_witness:
  "map_option fst
     (cmd_output_p proc_env_sample (pty_env_sample script_hangup) [''python''] None kwargs_merged [])
     = Some (Inr (3, Some [97, 10, 98, 10], None))
   \<and> map_option fst
     (cmd_output_p proc_env_sample (pty_env_sample script_failure) [''python''] None kwargs_merged [])
     = Some (Inl (OSError 9))"
proof -
  have hangup: "map_option fst
     (cmd_output_p proc_env_sample (pty_env_sample script_hangup) [''python''] None kwargs_merged [])
     = Some (Inr (3, Some [97, 10, 98, 10], None))"
    using cmd_output_p_reads_until_end_of_stream
      [where env = proc_env_sample and tenv = "pty_env_sample script_hangup"
         and argv = "[''python'']" and argv' = "[''/usr/bin/python'']" and kw = kwargs_merged
         and w = "[]" and devnull = 3 and r = 4 and wfd = 5
         and attrs = "\<lparr>iflag = 0, oflag = 5, cflag = 0, lflag = 0, ispeed = 15, ospeed = 15, cc = []\<rparr>"
         and proc = 7 and cs = "[[97, 10], [98, 10]]" and rc = 3]
    by (simp add: proc_env_sample_def pty_env_sample_def normalize_cmd_sample_def
        os_read_script_def script_hangup_def kwargs_merged_def)
  have failure: "map_option fst
     (cmd_output_p proc_env_sample (pty_env_sample script_failure) [''python''] None kwargs_merged [])
     = Some (Inl (OSError 9))"
    using cmd_output_p_reads_until_end_of_stream
      [where env = proc_env_sample and tenv = "pty_env_sample script_failure"
         and argv = "[''python'']" and argv' = "[''/usr/bin/python'']" and kw = kwargs_merged
         and w = "[]" and devnull = 3 and r = 4 and wfd = 5
         and attrs = "\<lparr>iflag = 0, oflag = 5, cflag = 0, lflag = 0, ispeed = 15, ospeed = 15, cc = []\<rparr>"
         and proc = 7 and cs = "[[97, 10]]" and e = "OSError 9"]
    by (simp add: proc_env_sample_def pty_env_sample_def normalize_cmd_sample_def
        os_read_script_def script_failure_def kwargs_merged_def EIO_def)
  show ?thesis
    using hangup failure by simp
qed

text \<open>
  Claim C10. A call of \<open>cmd_output_p\<close> that breaks the caller's contract fails before
  anything else happens: with an \<open>AssertionError\<close> when \<^verbatim>\<open>retcode\<close> is not \<^verbatim>\<open>None\<close>, with
  \<open>KeyError\<close> when the keyword arguments have no \<^verbatim>\<open>stderr\<close>, with an \<open>AssertionError\<close>
  carrying the value when \<^verbatim>\<open>stderr\<close> is not \<^verbatim>\<open>subprocess.STDOUT\<close>. The world is returned as
  it was: no external call was made, so the resolver was not consulted and no process was
  spawned.
\<close>

theorem cmd_output_p_contract_violation:
  "(retcode \<noteq> None \<longrightarrow>
      cmd_output_p env tenv argv retcode kw w = Some (Inl (AssertionError None), w))
   \<and> (retcode = None \<and> kw ''stderr'' = None \<longrightarrow>
      cmd_output_p env tenv argv retcode kw w = Some (Inl (KeyError ''stderr''), w))
   \<and> (retcode = None \<and> kw ''stderr'' = Some v \<and> v \<noteq> STDOUT \<longrightarrow>
      cmd_output_p env tenv argv retcode kw w = Some (Inl (AssertionError (Some v)), w))"
  by (simp add: cmd_output_p_def)

theorem cmd_output_p_contract_violation_witness:
  "cmd_output_p proc_env_sample (pty_env_sample script_hangup) [''python''] (Some 0) kwargs_merged []
     = Some (Inl (AssertionError None), [])
   \<and> cmd_output_p proc_env_sample (pty_env_sample script_hangup) [''python''] None kwargs_none []
     = Some (Inl (KeyError ''stderr''), [])
   \<and> cmd_output_p proc_env_sample (pty_env_sample script_hangup) [''python''] None kwargs_split []
     = Some (Inl (AssertionError (Some PIPE)), [])"
  using cmd_output_p_contract_violation
    [where retcode = "Some 0" and env = proc_env_sample and tenv = "pty_env_sample script_hangup"
       and argv = "[''python'']" and kw = kwargs_merged and w = "[]"]
    cmd_output_p_contract_violation
    [where retcode = None and env = proc_env_sample and tenv = "pty_env_sample script_hangup"
       and argv = "[''python'']" and kw = kwargs_none and w = "[]"]
    cmd_output_p_contract_violation
    [where retcode = None and env = proc_env_sample and tenv = "pty_env_sample script_hangup"
       and argv = "[''python'']" and kw = kwargs_split and w = "[]" and v = PIPE]
  by (simp add: kwargs_none_def kwargs_split_def PIPE_def STDOUT_def)

subsection \<open>The filesystem utilities\<close>

text \<open>
  Claim C7 as stated fails in its first case. The scope raises, the path exists (it is a
  regular file), and \<open>rmtree\<close> raises on it: the exception that leaves the guard is the one
  of \<open>rmtree\<close>, not the one of the scope, and the path is still there.
\<close>

theorem clean_path_on_failure_removal_raises_counterexample:
  "scope_raises [] = (Inl (OtherError ''boom''), [])
   \<and> os_path_exists fs_env_sample [] ''/tmp/repo/hook''
   \<and> clean_path_on_failure fs_env_sample ''/tmp/repo/hook'' scope_raises [] =
       (Inl (OSError 20), [PathExists ''/tmp/repo/hook'', OsFunc Scandir ''/tmp/repo/hook''])
   \<and> os_path_exists fs_env_sample
         [PathExists ''/tmp/repo/hook'', OsFunc Scandir ''/tmp/repo/hook''] ''/tmp/repo/hook''"
proof -
  have b: "\<not> bit (33060 :: int) 14"
    by (simp add: bit_iff_odd)
  show ?thesis
    by (simp add: clean_path_on_failure_def scope_raises_def rmtree_def fs_env_sample_def
        shutil_rmtree_sample_def extern_def handle_remove_readonly_def os_func_sample_def
        mode_now_def initial_mode_def b)
qed

text \<open>
  Claim C7, amended. For every path and every wrapped scope: when the scope raises and the
  path exists, \<open>rmtree\<close> is run on the path; if the removal returns, the exception of the
  scope is raised again, unchanged, and if the removal itself raises, that exception leaves
  the guard in place of the scope's. When the scope raises and the path does not exist,
  the exception is raised again and nothing but the existence test has been done. When the
  scope returns, its value and its world are passed on and nothing at all is done.
\<close>

theorem clean_path_on_failure_cases:
  "(scope w = (Inl e, w1) \<and> os_path_exists env w1 p
      \<and> rmtree env p (w1 @ [PathExists p]) = (Inr (), w2) \<longrightarrow>
      clean_path_on_failure env p scope w = (Inl e, w2))
   \<and> (scope w = (Inl e, w1) \<and> os_path_exists env w1 p
      \<and> rmtree env p (w1 @ [PathExists p]) = (Inl e', w2) \<longrightarrow>
      clean_path_on_failure env p scope w = (Inl e', w2))
   \<and> (scope w = (Inl e, w1) \<and> \<not> os_path_exists env w1 p \<longrightarrow>
      clean_path_on_failure env p scope w = (Inl e, w1 @ [PathExists p]))
   \<and> (scope w = (Inr v, w1) \<longrightarrow> clean_path_on_failure env p scope w = (Inr v, w1))"
  by (simp add: clean_path_on_failure_def extern_def)

theorem clean_path_on_failure_cases_witness:
  "clean_path_on_failure fs_env_sample ''/tmp/repo'' scope_raises [] =
     (Inl (OtherError ''boom''),
      [PathExists ''/tmp/repo'',
       OsFunc Unlink ''/tmp/repo/hook'',
       OsStat ''/tmp/repo/hook'', OsChmod ''/tmp/repo/hook'' 33188,
       OsStat ''/tmp/repo'', OsChmod ''/tmp/repo'' 16877,
       OsFunc Unlink ''/tmp/repo/hook'',
       OsFunc Rmdir ''/tmp/repo''])
   \<and> clean_path_on_failure fs_env_sample ''/tmp/repo/hook'' scope_raises [] =
     (Inl (OSError 20), [PathExists ''/tmp/repo/hook'', OsFunc Scandir ''/tmp/repo/hook''])
   \<and> clean_path_on_failure fs_env_sample ''/tmp/gone'' scope_raises [] =
     (Inl (OtherError ''boom''), [PathExists ''/tmp/gone''])
   \<and> clean_path_on_failure fs_env_sample ''/tmp/repo'' scope_returns [] = (Inr 42, [])"
proof -
  have ex: "os_path_exists fs_env_sample [] ''/tmp/repo''"
    and exf: "os_path_exists fs_env_sample [] ''/tmp/repo/hook''"
    and nex: "\<not> os_path_exists fs_env_sample [] ''/tmp/gone''"
    by (simp_all add: fs_env_sample_def mode_now_def initial_mode_def)
  have b: "\<not> bit (33060 :: int) 14"
    by (simp add: bit_iff_odd)
  have rm: "rmtree fs_env_sample ''/tmp/repo'' ([] @ [PathExists ''/tmp/repo'']) =
     (Inr (),
      [PathExists ''/tmp/repo'',
       OsFunc Unlink ''/tmp/repo/hook'',
       OsStat ''/tmp/repo/hook'', OsChmod ''/tmp/repo/hook'' 33188,
       OsStat ''/tmp/repo'', OsChmod ''/tmp/repo'' 16877,
       OsFunc Unlink ''/tmp/repo/hook'',
       OsFunc Rmdir ''/tmp/repo''])"
    by (simp add: rmtree_def fs_env_sample_def shutil_rmtree_sample_def extern_def
        handle_remove_readonly_def os_func_sample_def os_stat_sample_def os_chmod_sample_def
        dirname_sample_def mode_now_def initial_mode_def S_IWUSR_def bit_iff_odd)
  have rmf: "rmtree fs_env_sample ''/tmp/repo/hook'' ([] @ [PathExists ''/tmp/repo/hook'']) =
     (Inl (OSError 20), [PathExists ''/tmp/repo/hook'', OsFunc Scandir ''/tmp/repo/hook''])"
    by (simp add: rmtree_def fs_env_sample_def shutil_rmtree_sample_def extern_def
        handle_remove_readonly_def os_func_sample_def mode_now_def initial_mode_def b)
  show ?thesis
    using clean_path_on_failure_cases
      [where scope = scope_raises and w = "[]" and e = "OtherError ''boom''" and ?w1.0 = "[]"
         and env = fs_env_sample and p = "''/tmp/repo''" and ?w2.0 = "[PathExists ''/tmp/repo'',
       OsFunc Unlink ''/tmp/repo/hook'',
       OsStat ''/tmp/repo/hook'', OsChmod ''/tmp/repo/hook'' 33188,
       OsStat ''/tmp/repo'', OsChmod ''/tmp/repo'' 16877,
       OsFunc Unlink ''/tmp/repo/hook'',
       OsFunc Rmdir ''/tmp/repo'']"]
      clean_path_on_failure_cases
      [where scope = scope_raises and w = "[]" and e = "OtherError ''boom''" and ?w1.0 = "[]"
         and env = fs_env_sample and p = "''/tmp/repo/hook''" and e' = "OSError 20"
         and ?w2.0 = "[PathExists ''/tmp/repo/hook'', OsFunc Scandir ''/tmp/repo/hook'']"]
      clean_path_on_failure_cases
      [where scope = scope_raises and w = "[]" and e = "OtherError ''boom''" and ?w1.0 = "[]"
         and env = fs_env_sample and p = "''/tmp/gone''"]
      clean_path_on_failure_cases
      [where scope = scope_returns and w = "[]" and v = 42 and ?w1.0 = "[]"
         and env = fs_env_sample and p = "''/tmp/repo''"]
      ex exf nex rm rmf
    by (simp add: scope_raises_def scope_returns_def)
qed

text \<open>
  Claim C8 as stated fails where the read-only attribute cannot be cleared. Removing
  \<^verbatim>\<open>/tmp/lock\<close> fails with \<^verbatim>\<open>EACCES\<close>; the handler makes the file writable, but \<^verbatim>\<open>chmod\<close> on
  the parent directory fails with \<^verbatim>\<open>EPERM\<close>: that error leaves the handler, and the failing
  operation is not tried again.
\<close>

theorem handle_remove_readonly_no_retry_counterexample:
  "os_func fs_env_sample [] Unlink ''/tmp/lock'' = Inl (OSError EACCES)
   \<and> handle_remove_readonly fs_env_sample Unlink ''/tmp/lock'' EACCES [OsFunc Unlink ''/tmp/lock''] =
       (Inl (OSError 1),
        [OsFunc Unlink ''/tmp/lock'',
         OsStat ''/tmp/lock'', OsChmod ''/tmp/lock'' 33188,
         OsStat ''/tmp'', OsChmod ''/tmp'' 17407])"
proof -
  have b: "\<not> bit (33060 :: int) 7"
    by (simp add: bit_iff_odd)
  show ?thesis
    by (simp add: handle_remove_readonly_def fs_env_sample_def extern_def os_func_sample_def
        os_stat_sample_def os_chmod_sample_def dirname_sample_def mode_now_def initial_mode_def
        S_IWUSR_def b)
qed

text \<open>
  Claim C8, amended. \<open>rmtree\<close> is \<^verbatim>\<open>shutil.rmtree\<close> with \<^verbatim>\<open>ignore_errors=False\<close> and the
  handler \<open>handle_remove_readonly\<close>. A failure with an \<^verbatim>\<open>errno\<close> other than \<^verbatim>\<open>EACCES\<close>, or of
  a function other than \<^verbatim>\<open>os.rmdir\<close>, \<^verbatim>\<open>os.remove\<close> and \<^verbatim>\<open>os.unlink\<close>, is raised again
  unchanged, and nothing is called. When one of these three has failed with \<^verbatim>\<open>EACCES\<close>,
  the handler reads the mode of the failing path and sets it with the owner-write bit added
  (bit 7, nothing else), then does the same for the parent directory. If one of these four
  calls fails, its exception leaves the handler and no retry is made. If all four succeed,
  the handler calls the failing function on the failing path once more, exactly once; what
  this call answers, success or a second failure, is the handler's outcome.
\<close>

theorem rmtree_retries_permission_errors:
  "rmtree env p w = shutil_rmtree env p False (handle_remove_readonly env) w
   \<and> (\<not> (func \<in> {Rmdir, Remove, Unlink} \<and> errno = EACCES) \<longrightarrow>
        handle_remove_readonly env func q errno w = (Inl (OSError errno), w))
   \<and> (func \<in> {Rmdir, Remove, Unlink} \<and> os_stat_st_mode env w q = Inl e \<longrightarrow>
        handle_remove_readonly env func q EACCES w = (Inl e, w @ [OsStat q]))
   \<and> (func \<in> {Rmdir, Remove, Unlink}
      \<and> os_stat_st_mode env w q = Inr m
      \<and> os_chmod env (w @ [OsStat q]) q (m OR S_IWUSR) = Inl e \<longrightarrow>
        handle_remove_readonly env func q EACCES w =
          (Inl e, w @ [OsStat q, OsChmod q (m OR S_IWUSR)]))
   \<and> (func \<in> {Rmdir, Remove, Unlink}
      \<and> os_stat_st_mode env w q = Inr m
      \<and> os_chmod env (w @ [OsStat q]) q (m OR S_IWUSR) = Inr ()
      \<and> os_stat_st_mode env (w @ [OsStat q, OsChmod q (m OR S_IWUSR)]) (os_path_dirname env q)
          = Inl e \<longrightarrow>
        handle_remove_readonly env func q EACCES w =
          (Inl e, w @ [OsStat q, OsChmod q (m OR S_IWUSR), OsStat (os_path_dirname env q)]))
   \<and> (func \<in> {Rmdir, Remove, Unlink}
      \<and> os_stat_st_mode env w q = Inr m
      \<and> os_chmod env (w @ [OsStat q]) q (m OR S_IWUSR) = Inr ()
      \<and> os_stat_st_mode env (w @ [OsStat q, OsChmod q (m OR S_IWUSR)]) (os_path_dirname env q)
          = Inr m'
      \<and> os_chmod env
           (w @ [OsStat q, OsChmod q (m OR S_IWUSR), OsStat (os_path_dirname env q)])
           (os_path_dirname env q) (m' OR S_IWUSR) = Inl e \<longrightarrow>
        handle_remove_readonly env func q EACCES w =
          (Inl e, w @ [OsStat q, OsChmod q (m OR S_IWUSR), OsStat (os_path_dirname env q),
                       OsChmod (os_path_dirname env q) (m' OR S_IWUSR)]))
   \<and> (func \<in> {Rmdir, Remove, Unlink}
      \<and> os_stat_st_mode env w q = Inr m
      \<and> os_chmod env (w @ [OsStat q]) q (m OR S_IWUSR) = Inr ()
      \<and> os_stat_st_mode env (w @ [OsStat q, OsChmod q (m OR S_IWUSR)]) (os_path_dirname env q)
          = Inr m'
      \<and> os_chmod env
           (w @ [OsStat q, OsChmod q (m OR S_IWUSR), OsStat (os_path_dirname env q)])
           (os_path_dirname env q) (m' OR S_IWUSR) = Inr () \<longrightarrow>
      handle_remove_readonly env func q EACCES w =
        (os_func env
           (w @ [OsStat q, OsChmod q (m OR S_IWUSR), OsStat (os_path_dirname env q),
                 OsChmod (os_path_dirname env q) (m' OR S_IWUSR)]) func q,
         w @ [OsStat q, OsChmod q (m OR S_IWUSR), OsStat (os_path_dirname env q),
              OsChmod (os_path_dirname env q) (m' OR S_IWUSR), OsFunc func q]))
   \<and> (\<forall>n. bit (m OR S_IWUSR) n \<longleftrightarrow> bit m n \<or> n = 7)"
proof (intro conjI impI)
  show "rmtree env p w = shutil_rmtree env p False (handle_remove_readonly env) w"
    by (simp add: rmtree_def)
next
  assume "\<not> (func \<in> {Rmdir, Remove, Unlink} \<and> errno = EACCES)"
  then show "handle_remove_readonly env func q errno w = (Inl (OSError errno), w)"
    unfolding handle_remove_readonly_def by (rule if_not_P)
next
  assume "func \<in> {Rmdir, Remove, Unlink} \<and> os_stat_st_mode env w q = Inl e"
  then show "handle_remove_readonly env func q EACCES w = (Inl e, w @ [OsStat q])"
    by (simp add: handle_remove_readonly_def extern_def)
next
  assume "func \<in> {Rmdir, Remove, Unlink}
      \<and> os_stat_st_mode env w q = Inr m
      \<and> os_chmod env (w @ [OsStat q]) q (m OR S_IWUSR) = Inl e"
  then show "handle_remove_readonly env func q EACCES w =
          (Inl e, w @ [OsStat q, OsChmod q (m OR S_IWUSR)])"
    by (simp add: handle_remove_readonly_def extern_def)
next
  assume "func \<in> {Rmdir, Remove, Unlink}
      \<and> os_stat_st_mode env w q = Inr m
      \<and> os_chmod env (w @ [OsStat q]) q (m OR S_IWUSR) = Inr ()
      \<and> os_stat_st_mode env (w @ [OsStat q, OsChmod q (m OR S_IWUSR)]) (os_path_dirname env q)
          = Inl e"
  then show "handle_remove_readonly env func q EACCES w =
          (Inl e, w @ [OsStat q, OsChmod q (m OR S_IWUSR), OsStat (os_path_dirname env q)])"
    by (simp add: handle_remove_readonly_def extern_def)
next
  assume "func \<in> {Rmdir, Remove, Unlink}
      \<and> os_stat_st_mode env w q = Inr m
      \<and> os_chmod env (w @ [OsStat q]) q (m OR S_IWUSR) = Inr ()
      \<and> os_stat_st_mode env (w @ [OsStat q, OsChmod q (m OR S_IWUSR)]) (os_path_dirname env q)
          = Inr m'
      \<and> os_chmod env
           (w @ [OsStat q, OsChmod q (m OR S_IWUSR), OsStat (os_path_dirname env q)])
           (os_path_dirname env q) (m' OR S_IWUSR) = Inl e"
  then show "handle_remove_readonly env func q EACCES w =
          (Inl e, w @ [OsStat q, OsChmod q (m OR S_IWUSR), OsStat (os_path_dirname env q),
                       OsChmod (os_path_dirname env q) (m' OR S_IWUSR)])"
    by (simp add: handle_remove_readonly_def extern_def)
next
  assume "func \<in> {Rmdir, Remove, Unlink}
      \<and> os_stat_st_mode env w q = Inr m
      \<and> os_chmod env (w @ [OsStat q]) q (m OR S_IWUSR) = Inr ()
      \<and> os_stat_st_mode env (w @ [OsStat q, OsChmod q (m OR S_IWUSR)]) (os_path_dirname env q)
          = Inr m'
      \<and> os_chmod env
           (w @ [OsStat q, OsChmod q (m OR S_IWUSR), OsStat (os_path_dirname env q)])
           (os_path_dirname env q) (m' OR S_IWUSR) = Inr ()"
  then show "handle_remove_readonly env func q EACCES w =
        (os_func env
           (w @ [OsStat q, OsChmod q (m OR S_IWUSR), OsStat (os_path_dirname env q),
                 OsChmod (os_path_dirname env q) (m' OR S_IWUSR)]) func q,
         w @ [OsStat q, OsChmod q (m OR S_IWUSR), OsStat (os_path_dirname env q),
              OsChmod (os_path_dirname env q) (m' OR S_IWUSR), OsFunc func q])"
    by (simp add: handle_remove_readonly_def extern_def)
next
  show "\<forall>n. bit (m OR S_IWUSR) n \<longleftrightarrow> bit m n \<or> n = 7"
    by (simp add: bit_owner_write)
qed

theorem rmtree_retries_permission_errors_witness:
  "rmtree fs_env_sample ''/tmp/repo'' [] =
     (Inr (),
      [OsFunc Unlink ''/tmp/repo/hook'',
       OsStat ''/tmp/repo/hook'', OsChmod ''/tmp/repo/hook'' 33188,
       OsStat ''/tmp/repo'', OsChmod ''/tmp/repo'' 16877,
       OsFunc Unlink ''/tmp/repo/hook'',
       OsFunc Rmdir ''/tmp/repo''])
   \<and> handle_remove_readonly fs_env_sample Unlink ''/tmp/repo/hook'' EACCES
         [OsFunc Unlink ''/tmp/repo/hook''] =
       (Inr (),
        [OsFunc Unlink ''/tmp/repo/hook'',
         OsStat ''/tmp/repo/hook'', OsChmod ''/tmp/repo/hook'' 33188,
         OsStat ''/tmp/repo'', OsChmod ''/tmp/repo'' 16877,
         OsFunc Unlink ''/tmp/repo/hook''])
   \<and> handle_remove_readonly fs_env_sample Unlink ''/tmp/repo/hook'' 2
         [OsFunc Unlink ''/tmp/repo/hook''] =
       (Inl (OSError 2), [OsFunc Unlink ''/tmp/repo/hook''])
   \<and> handle_remove_readonly fs_env_sample Lstat ''/tmp/repo/hook'' EACCES
         [OsFunc Lstat ''/tmp/repo/hook''] =
       (Inl (OSError EACCES), [OsFunc Lstat ''/tmp/repo/hook''])
   \<and> handle_remove_readonly fs_env_sample Unlink ''/tmp/lock'' EACCES [OsFunc Unlink ''/tmp/lock''] =
       (Inl (OSError 1),
        [OsFunc Unlink ''/tmp/lock'',
         OsStat ''/tmp/lock'', OsChmod ''/tmp/lock'' 33188,
         OsStat ''/tmp'', OsChmod ''/tmp'' 17407])"
proof -
  let ?w = "[OsFunc Unlink ''/tmp/repo/hook'']"
  have dir: "os_path_dirname fs_env_sample ''/tmp/repo/hook'' = ''/tmp/repo''"
    by (simp add: fs_env_sample_def dirname_sample_def)
  have w33188: "(33060 :: int) OR S_IWUSR = 33188" and w16877: "(16749 :: int) OR S_IWUSR = 16877"
    by (simp_all add: S_IWUSR_def)
  have s1: "os_stat_st_mode fs_env_sample ?w ''/tmp/repo/hook'' = Inr 33060"
    by (simp add: fs_env_sample_def os_stat_sample_def mode_now_def initial_mode_def)
  have c1: "os_chmod fs_env_sample (?w @ [OsStat ''/tmp/repo/hook'']) ''/tmp/repo/hook'' 33188 = Inr ()"
    by (simp add: fs_env_sample_def os_chmod_sample_def mode_now_def initial_mode_def)
  have s2: "os_stat_st_mode fs_env_sample
              (?w @ [OsStat ''/tmp/repo/hook'', OsChmod ''/tmp/repo/hook'' 33188]) ''/tmp/repo''
            = Inr 16749"
    by (simp add: fs_env_sample_def os_stat_sample_def mode_now_def initial_mode_def)
  have c2: "os_chmod fs_env_sample
              (?w @ [OsStat ''/tmp/repo/hook'', OsChmod ''/tmp/repo/hook'' 33188, OsStat ''/tmp/repo''])
              ''/tmp/repo'' 16877 = Inr ()"
    by (simp add: fs_env_sample_def os_chmod_sample_def mode_now_def initial_mode_def)
  have b7: "bit (33188 :: int) 7" "bit (16877 :: int) 7" "\<not> bit (33060 :: int) 7"
    by (simp_all add: bit_iff_odd)
  have retry: "os_func fs_env_sample
              (?w @ [OsStat ''/tmp/repo/hook'', OsChmod ''/tmp/repo/hook'' 33188, OsStat ''/tmp/repo'',
                     OsChmod ''/tmp/repo'' 16877]) Unlink ''/tmp/repo/hook'' = Inr ()"
    by (simp add: fs_env_sample_def os_func_sample_def mode_now_def initial_mode_def b7)
  have first: "os_func_sample [] Unlink ''/tmp/repo/hook'' = Inl (OSError EACCES)"
    by (simp add: os_func_sample_def mode_now_def initial_mode_def b7)
  have rmdir: "os_func_sample
              (?w @ [OsStat ''/tmp/repo/hook'', OsChmod ''/tmp/repo/hook'' 33188, OsStat ''/tmp/repo'',
                     OsChmod ''/tmp/repo'' 16877, OsFunc Unlink ''/tmp/repo/hook'']) Rmdir ''/tmp/repo''
              = Inr ()"
    by (simp add: os_func_sample_def mode_now_def initial_mode_def b7)
  note inst = rmtree_retries_permission_errors
    [where env = fs_env_sample and p = "''/tmp/repo''" and w = ?w and func = Unlink
       and q = "''/tmp/repo/hook''" and m = 33060 and m' = 16749 and errno = 2]
  have h: "handle_remove_readonly fs_env_sample Unlink ''/tmp/repo/hook'' EACCES ?w =
       (Inr (),
        [OsFunc Unlink ''/tmp/repo/hook'',
         OsStat ''/tmp/repo/hook'', OsChmod ''/tmp/repo/hook'' 33188,
         OsStat ''/tmp/repo'', OsChmod ''/tmp/repo'' 16877,
         OsFunc Unlink ''/tmp/repo/hook''])"
    using inst s1 c1 s2 c2 retry by (simp add: dir w33188 w16877)
  have other: "handle_remove_readonly fs_env_sample Unlink ''/tmp/repo/hook'' 2 ?w =
       (Inl (OSError 2), ?w)"
    using inst by (simp add: EACCES_def)
  have lstat: "handle_remove_readonly fs_env_sample Lstat ''/tmp/repo/hook'' EACCES
         [OsFunc Lstat ''/tmp/repo/hook''] =
       (Inl (OSError EACCES), [OsFunc Lstat ''/tmp/repo/hook''])"
    using rmtree_retries_permission_errors
      [where env = fs_env_sample and func = Lstat and errno = EACCES
         and w = "[OsFunc Lstat ''/tmp/repo/hook'']" and q = "''/tmp/repo/hook''"]
    by simp
  have lock: "handle_remove_readonly fs_env_sample Unlink ''/tmp/lock'' EACCES
         [OsFunc Unlink ''/tmp/lock''] =
       (Inl (OSError 1),
        [OsFunc Unlink ''/tmp/lock'',
         OsStat ''/tmp/lock'', OsChmod ''/tmp/lock'' 33188,
         OsStat ''/tmp'', OsChmod ''/tmp'' 17407])"
    using rmtree_retries_permission_errors
      [where env = fs_env_sample and func = Unlink and q = "''/tmp/lock''"
         and w = "[OsFunc Unlink ''/tmp/lock'']" and m = 33060 and m' = 17407
         and e = "OSError 1"]
    by (simp add: fs_env_sample_def os_stat_sample_def os_chmod_sample_def dirname_sample_def
        mode_now_def initial_mode_def S_IWUSR_def)
  have "rmtree fs_env_sample ''/tmp/repo'' [] =
          delete_steps (handle_remove_readonly fs_env_sample)
            [(Unlink, ''/tmp/repo/hook''), (Rmdir, ''/tmp/repo'')] []"
    using rmtree_retries_permission_errors
      [where env = fs_env_sample and p = "''/tmp/repo''" and w = "[]"]
    by (simp add: fs_env_sample_def shutil_rmtree_sample_def)
  also have "\<dots> = (Inr (),
      [OsFunc Unlink ''/tmp/repo/hook'',
       OsStat ''/tmp/repo/hook'', OsChmod ''/tmp/repo/hook'' 33188,
       OsStat ''/tmp/repo'', OsChmod ''/tmp/repo'' 16877,
       OsFunc Unlink ''/tmp/repo/hook'',
       OsFunc Rmdir ''/tmp/repo''])"
    using rmdir by (simp add: extern_def first h)
  finally show ?thesis
    using h other lstat lock by simp
qed

text \<open>
  Claim C9. For every file and every mode \<^verbatim>\<open>os.stat\<close> reports for it, \<open>make_executable\<close>
  makes one \<^verbatim>\<open>chmod\<close> call on that file, and the mode it sets is the old mode or-ed with
  the owner, group and other execute bits: bits 6, 3 and 0 are set in it, and every other
  bit, the read and write bits among them, is as it was.
\<close>

theorem make_executable_adds_execute_bits:
  assumes "os_stat_st_mode env w filename = Inr original_mode"
  shows "make_executable env filename w =
           (os_chmod env (w @ [OsStat filename]) filename
              (original_mode OR S_IXUSR OR S_IXGRP OR S_IXOTH),
            w @ [OsStat filename,
                 OsChmod filename (original_mode OR S_IXUSR OR S_IXGRP OR S_IXOTH)])
         \<and> (\<forall>n. bit (original_mode OR S_IXUSR OR S_IXGRP OR S_IXOTH) n \<longleftrightarrow>
                bit original_mode n \<or> n = 6 \<or> n = 3 \<or> n = 0)
         \<and> S_IXUSR = 2 ^ 6 \<and> S_IXGRP = 2 ^ 3 \<and> S_IXOTH = 2 ^ 0"
proof -
  have "make_executable env filename w =
           (os_chmod env (w @ [OsStat filename]) filename
              (original_mode OR S_IXUSR OR S_IXGRP OR S_IXOTH),
            w @ [OsStat filename,
                 OsChmod filename (original_mode OR S_IXUSR OR S_IXGRP OR S_IXOTH)])"
    using assms by (simp add: make_executable_def extern_def Let_def)
  moreover have "S_IXUSR = 2 ^ 6 \<and> S_IXGRP = 2 ^ 3 \<and> S_IXOTH = 2 ^ 0"
    by (simp add: S_IXUSR_def S_IXGRP_def S_IXOTH_def)
  ultimately show ?thesis
    using bit_execute_bits by blast
qed

theorem make_executable_adds_execute_bits_witness:
  "make_executable fs_env_sample ''/tmp/repo/hook'' [] =
     (Inr (), [OsStat ''/tmp/repo/hook'', OsChmod ''/tmp/repo/hook'' 33133])
   \<and> bit (33133 :: int) 6 \<and> bit (33133 :: int) 3 \<and> bit (33133 :: int) 0
   \<and> (bit (33133 :: int) 7 \<longleftrightarrow> bit (33060 :: int) 7)"
proof -
  have stat: "os_stat_st_mode fs_env_sample [] ''/tmp/repo/hook'' = Inr 33060"
    by (simp add: fs_env_sample_def os_stat_sample_def mode_now_def initial_mode_def)
  have new: "(33060 :: int) OR S_IXUSR OR S_IXGRP OR S_IXOTH = 33133"
    by (simp add: S_IXUSR_def S_IXGRP_def S_IXOTH_def)
  have chmod: "os_chmod fs_env_sample [OsStat ''/tmp/repo/hook''] ''/tmp/repo/hook'' 33133 = Inr ()"
    by (simp add: fs_env_sample_def os_chmod_sample_def mode_now_def initial_mode_def)
  show ?thesis
    using make_executable_adds_execute_bits [OF stat] unfolding new by (simp add: chmod)
qed

end
